theory Spec2Isabelle
  imports Complex_Main "HOL-Library.Char_ord" "HOL-Library.List_Lexorder"
begin

section \<open>Strings, addresses and decimal amounts\<close>

text \<open>
  The script handles addresses, transaction hashes and calldata as JavaScript strings
  (viem's \<open>Address\<close> and \<open>Hex\<close> are string types) and token amounts as \<open>bigint\<close>.
  Strings are modelled as \<^typ>\<open>string\<close>, bigints as \<^typ>\<open>int\<close>. JavaScript's \<open><\<close> on two
  strings is the lexicographic order of their code units, which on \<^typ>\<open>string\<close> is the
  order \<open><\<close> of the two library theories imported above.
\<close>

text \<open>
  \<open>String.prototype.toLowerCase\<close>, on the ASCII range that hexadecimal addresses use:
  the letters \<open>A\<close> to \<open>Z\<close> are mapped to \<open>a\<close> to \<open>z\<close>, every other character is kept.
\<close>

definition lower_char :: "char \<Rightarrow> char" where
  "lower_char c =
     (case map_of (zip ''ABCDEFGHIJKLMNOPQRSTUVWXYZ'' ''abcdefghijklmnopqrstuvwxyz'') c of
        None \<Rightarrow> c
      | Some d \<Rightarrow> d)"

definition toLowerCase :: "string \<Rightarrow> string" where
  "toLowerCase s = map lower_char s"

text \<open>
  \<open>String(n)\<close> for a bigint \<open>n\<close>: the decimal digits, most significant first, with a
  leading minus sign for a negative number.
\<close>

definition digit_char :: "int \<Rightarrow> char" where
  "digit_char d = ''0123456789'' ! nat d"

function digits :: "int \<Rightarrow> string" where
  "digits n = (if n < 10 then [digit_char n] else digits (n div 10) @ [digit_char (n mod 10)])"
  by pat_completeness auto
termination
  by (relation "measure nat") auto

declare digits.simps [simp del]

definition String_bigint :: "int \<Rightarrow> string" where
  "String_bigint n = (if n < 0 then CHR ''-'' # digits (- n) else digits n)"

text \<open>
  \<open>BigInt(s)\<close> on a string of decimal digits: the number the digits denote.
\<close>

definition digit_val :: "char \<Rightarrow> int" where
  "digit_val c = (case map_of (zip ''0123456789'' [0, 1, 2, 3, 4, 5, 6, 7, 8, 9]) c of
                    None \<Rightarrow> 0
                  | Some d \<Rightarrow> d)"

definition is_digit :: "char \<Rightarrow> bool" where
  "is_digit c = (c \<in> set ''0123456789'')"

definition BigInt :: "string \<Rightarrow> int" where
  "BigInt s = foldl (\<lambda>acc c. 10 * acc + digit_val c) 0 s"

datatype error =
    PrivateKeyNotDefined
  | NoEthBalance
  | ContractAddressNotDefined
  | PoolAddressNotDefined
  | QuoteReturnDataNotDefined
  | InvalidDecimalNumber
  | FractionRoundingNotModelled
  | InvalidAddress
  | LibraryError string
  | RpcError string

text \<open>
  \<open>parseEther\<close> is viem's \<open>parseUnits(value, 18)\<close>. The value must match
  \<open>-?[0-9]*\.?[0-9]*\<close>; it is split at the point into an integer part and a fraction
  (\<open>'0'\<close> when there is no point), trailing zeros of the fraction are dropped, the
  fraction is padded with zeros to 18 digits and the joined digits are read as a bigint.
  A fraction of more than 18 significant digits is rounded by viem in floating point;
  that path is outside this embedding and is marked by \<open>FractionRoundingNotModelled\<close>
  (the program only passes strings without a fraction).
\<close>

definition parseEther :: "string \<Rightarrow> error + int" where
  "parseEther v =
     (let negative = (case v of [] \<Rightarrow> False | c # _ \<Rightarrow> c = CHR ''-'');
          body = (if negative then tl v else v);
          integer = takeWhile (\<lambda>c. c \<noteq> CHR ''.'') body;
          fraction0 = (case dropWhile (\<lambda>c. c \<noteq> CHR ''.'') body of
                         [] \<Rightarrow> ''0''
                       | _ # f \<Rightarrow> f)
      in if \<not> (list_all is_digit integer \<and> list_all is_digit fraction0)
         then Inl InvalidDecimalNumber
         else let fraction = rev (dropWhile (\<lambda>c. c = CHR ''0'') (rev fraction0))
              in if length fraction > 18 then Inl FractionRoundingNotModelled
                 else let ds = integer @ fraction @ replicate (18 - length fraction) CHR ''0''
                      in Inr ((if negative then - 1 else 1) * BigInt ds))"

section \<open>Tokens and the canonical order of a pair\<close>

record Token =
  address :: string
  tokenName :: string
  tokenSymbol :: string
  tokenSupply :: int

text \<open>
  The ordering step of \<open>main\<close> (it occurs twice, after the deployments and again before
  the pool is read):
  \<^verbatim>\<open>[tokenOne, tokenTwo] =
     tokenOne.address.toLowerCase() < tokenTwo.address.toLowerCase()
       ? [tokenOne, tokenTwo] : [tokenTwo, tokenOne]\<close>
\<close>

definition orderPair :: "Token \<Rightarrow> Token \<Rightarrow> Token \<times> Token" where
  "orderPair tokenOne tokenTwo =
     (if toLowerCase (address tokenOne) < toLowerCase (address tokenTwo)
      then (tokenOne, tokenTwo) else (tokenTwo, tokenOne))"

section \<open>The chain gateway and the trace of a run\<close>

text \<open>
  \<open>cache.json\<close> as the script writes it: each token record with its supply as a string,
  and the pool address. A missing key reads as \<open>undefined\<close>, here \<open>None\<close>.
\<close>

record CachedToken =
  cached_address :: string
  cached_tokenName :: string
  cached_tokenSymbol :: string
  cached_tokenSupply :: string

record Cache =
  tokenOne :: "CachedToken option"
  tokenTwo :: "CachedToken option"
  poolAddress :: "string option"

text \<open>
  Every interaction with the chain client (\<open>publicClient\<close>, \<open>walletClient\<close>) is a
  \<open>call\<close>. Of the arguments the script passes, the model keeps those that vary: the
  target address, the function name, the ABI arguments and the nonce. The account, the
  ABI and the chain object are the same in every call and are left out. Writing the
  cache file is recorded in the same trace.
\<close>

datatype arg =
    Addr string
  | UInt int
  | Str string
  | Struct "(string \<times> arg) list"

datatype call =
    DeployContract string "arg list"
  | WriteContract string string "arg list" "int option"
  | ReadContract "string option" string "arg list"
  | WaitForTransactionReceipt string
  | GetBalance string
  | GetTransactionCount string
  | PrepareTransactionRequest string string int int
  | SignTransaction string
  | SendRawTransaction string
  | EthCall string string
  | SaveCacheFile Cache

record log =
  data :: string

record receipt =
  contractAddress :: "string option"
  logs :: "log list"

text \<open>
  The chain is outside the program. It is a parameter of the model: for every kind of
  answer a function from the calls made so far and the current call to the answer, or
  to the error the client throws. Theorems hold for every such chain.
\<close>

record chain =
  tx_hash :: "call list \<Rightarrow> call \<Rightarrow> error + string"
  tx_receipt :: "call list \<Rightarrow> call \<Rightarrow> error + receipt"
  uint_result :: "call list \<Rightarrow> call \<Rightarrow> error + int"
  slot0_result :: "call list \<Rightarrow> call \<Rightarrow> error + int \<times> int"
  call_result :: "call list \<Rightarrow> call \<Rightarrow> error + string option"
  request_result :: "call list \<Rightarrow> call \<Rightarrow> error + string"
  file_result :: "call list \<Rightarrow> call \<Rightarrow> error + unit"

text \<open>
  An asynchronous computation takes the calls made before it and returns the calls it
  makes itself, in order, with its result: a value, or the exception that ended it.
  \<open>await m f\<close> is \<open>const x = await m; f x\<close>: an exception in \<open>m\<close> ends the whole
  computation, after the calls \<open>m\<close> had made.
\<close>

type_synonym 'a io = "call list \<Rightarrow> call list \<times> (error + 'a)"

definition ret :: "'a \<Rightarrow> 'a io" where
  "ret x = (\<lambda>h. ([], Inr x))"

definition throw :: "error \<Rightarrow> 'a io" where
  "throw e = (\<lambda>h. ([], Inl e))"

definition lift :: "error + 'a \<Rightarrow> 'a io" where
  "lift r = (\<lambda>h. ([], r))"

definition await :: "'a io \<Rightarrow> ('a \<Rightarrow> 'b io) \<Rightarrow> 'b io" where
  "await m f = (\<lambda>h. case m h of
                      (cs, Inl e) \<Rightarrow> (cs, Inl e)
                    | (cs, Inr x) \<Rightarrow> (case f x (h @ cs) of (cs', r) \<Rightarrow> (cs @ cs', r)))"

definition rpc :: "(call list \<Rightarrow> call \<Rightarrow> error + 'a) \<Rightarrow> call \<Rightarrow> 'a io" where
  "rpc answer c = (\<lambda>h. ([c], answer h c))"

text \<open>
  A promise that has been started but not yet awaited: its calls are made, its outcome
  is kept as a value (used for \<open>Promise.all\<close>).
\<close>

definition started :: "'a io \<Rightarrow> (error + 'a) io" where
  "started m = (\<lambda>h. case m h of (cs, r) \<Rightarrow> (cs, Inr r))"

definition deployContract :: "chain \<Rightarrow> string \<Rightarrow> arg list \<Rightarrow> string io" where
  "deployContract C account args = rpc (tx_hash C) (DeployContract account args)"

definition writeContract ::
  "chain \<Rightarrow> string \<Rightarrow> string \<Rightarrow> arg list \<Rightarrow> int option \<Rightarrow> string io" where
  "writeContract C addr functionName args nonce =
     rpc (tx_hash C) (WriteContract addr functionName args nonce)"

definition sendRawTransaction :: "chain \<Rightarrow> string \<Rightarrow> string io" where
  "sendRawTransaction C serializedTransaction =
     rpc (tx_hash C) (SendRawTransaction serializedTransaction)"

definition waitForTransactionReceipt :: "chain \<Rightarrow> string \<Rightarrow> receipt io" where
  "waitForTransactionReceipt C hash = rpc (tx_receipt C) (WaitForTransactionReceipt hash)"

definition readContract :: "chain \<Rightarrow> string option \<Rightarrow> string \<Rightarrow> arg list \<Rightarrow> int io" where
  "readContract C addr functionName args =
     rpc (uint_result C) (ReadContract addr functionName args)"

definition readContract_slot0 :: "chain \<Rightarrow> string option \<Rightarrow> (int \<times> int) io" where
  "readContract_slot0 C addr = rpc (slot0_result C) (ReadContract addr ''slot0'' [])"

definition getBalance :: "chain \<Rightarrow> string \<Rightarrow> int io" where
  "getBalance C addr = rpc (uint_result C) (GetBalance addr)"

definition getTransactionCount :: "chain \<Rightarrow> string \<Rightarrow> int io" where
  "getTransactionCount C addr = rpc (uint_result C) (GetTransactionCount addr)"

definition prepareTransactionRequest ::
  "chain \<Rightarrow> string \<Rightarrow> string \<Rightarrow> int \<Rightarrow> int \<Rightarrow> string io" where
  "prepareTransactionRequest C calldata to val nonce =
     rpc (request_result C) (PrepareTransactionRequest calldata to val nonce)"

definition signTransaction :: "chain \<Rightarrow> string \<Rightarrow> string io" where
  "signTransaction C request = rpc (request_result C) (SignTransaction request)"

definition eth_call :: "chain \<Rightarrow> string \<Rightarrow> string \<Rightarrow> string option io" where
  "eth_call C to calldata = rpc (call_result C) (EthCall to calldata)"

section \<open>Configuration\<close>

record Contracts =
  FACTORY_ADDRESS :: string
  SWAP_ROUTER_ADDRESS :: string
  NONFUNGIBLE_TOKEN_POSITION_MANAGER_ADDRESS :: string
  WETH_ADDRESS :: string
  QUOTER_V2_ADDRESS :: string

text \<open>\<open>wantedChain\<close> is \<open>abstractTestnet\<close>, so \<open>wantedContracts\<close> is its entry of the table.\<close>

definition wantedContracts :: Contracts where
  "wantedContracts =
     \<lparr>FACTORY_ADDRESS = ''0x2E17FF9b877661bDFEF8879a4B31665157a960F0'',
      SWAP_ROUTER_ADDRESS = ''0xb9D4347d129a83cBC40499Cd4fF223dE172a70dF'',
      NONFUNGIBLE_TOKEN_POSITION_MANAGER_ADDRESS = ''0x069f199763c045A294C7913E64bA80E5F362A5d7'',
      WETH_ADDRESS = ''0x9EDCde0257F2386Ce177C3a7FCdd97787F0D841d'',
      QUOTER_V2_ADDRESS = ''0xdE41045eb15C8352413199f35d6d1A32803DaaE2''\<rparr>"

definition abstractTestnet_id :: int where
  "abstractTestnet_id = 11124"

text \<open>
  The two supplies are \<open>parseEther("1000")\<close>, evaluated when the module is loaded. Both
  evaluations succeed; the model looks at their outcome where \<open>main\<close> first uses them.
\<close>

definition token_one_name :: string where "token_one_name = ''Pudgy''"
definition token_one_symbol :: string where "token_one_symbol = ''PUDGY''"
definition token_one_supply :: "error + int" where "token_one_supply = parseEther ''1000''"

definition token_two_name :: string where "token_two_name = ''Penguin''"
definition token_two_symbol :: string where "token_two_symbol = ''PENGUIN''"
definition token_two_supply :: "error + int" where "token_two_supply = parseEther ''1000''"

definition pool_fee :: int where "pool_fee = 500"

text \<open>
  What the process is started with: the environment variable \<open>PRIVATE_KEY\<close>, the command
  line, and the clock read by \<open>Date.now()\<close> (milliseconds).
\<close>

record config =
  PRIVATE_KEY :: "string option"
  argv :: "string list"
  now :: int

definition create :: "config \<Rightarrow> bool" where
  "create cfg = (''--create'' \<in> set (argv cfg))"

section \<open>The cache\<close>

text \<open>
  What \<open>saveCache\<close> is given for a token (lines 343 to 350):
  \<open>{...token, tokenSupply: String(token.tokenSupply)}\<close>.
\<close>

definition toCached :: "Token \<Rightarrow> CachedToken" where
  "toCached t =
     \<lparr>cached_address = address t, cached_tokenName = tokenName t,
      cached_tokenSymbol = tokenSymbol t,
      cached_tokenSupply = String_bigint (tokenSupply t)\<rparr>"

text \<open>
  What \<open>main\<close> makes of a cached token (lines 271 to 286):
  \<open>cache.tokenOne ? {...cache.tokenOne, tokenSupply: parseEther(cache.tokenOne.tokenSupply)}
  : undefined\<close>.
\<close>

definition fromCached :: "CachedToken option \<Rightarrow> error + Token option" where
  "fromCached c =
     (case c of
        None \<Rightarrow> Inr None
      | Some ct \<Rightarrow>
          (case parseEther (cached_tokenSupply ct) of
             Inl e \<Rightarrow> Inl e
           | Inr supply \<Rightarrow>
               Inr (Some \<lparr>address = cached_address ct, tokenName = cached_tokenName ct,
                          tokenSymbol = cached_tokenSymbol ct, tokenSupply = supply\<rparr>)))"

definition saveCache :: "chain \<Rightarrow> Cache \<Rightarrow> unit io" where
  "saveCache C d =
     rpc (file_result C) (SaveCacheFile d)"

section \<open>Library functions\<close>

text \<open>
  The objects of the Uniswap SDK that the script builds, with the constructor arguments it
  passes.
\<close>

record SdkToken =
  sdk_chainId :: int
  sdk_address :: string
  sdk_decimals :: int
  sdk_name :: string
  sdk_symbol :: string

record Pool =
  tokenA :: SdkToken
  tokenB :: SdkToken
  fee :: int
  sqrtRatioX96 :: string
  pool_liquidity :: string
  tickCurrent :: int

record Position =
  pool :: Pool
  liquidity :: string
  tickLower :: int
  tickUpper :: int

record MintOptions =
  recipient :: string
  deadline :: int
  slippageTolerance :: "int \<times> int"

text \<open>
  The functions of viem and of the Uniswap SDK whose code is not part of the script are
  parameters of the model; each returns a value or the exception it throws.
  \<open>keccak_upper s i\<close> says whether the \<open>i\<close>-th hexadecimal digit of the Keccak-256 hash
  of \<open>s\<close> is 8 or more (the digit that EIP-55 looks at). The invariants that the
  constructors of \<open>Pool\<close>, \<open>Position\<close>, \<open>Route\<close> and \<open>CurrencyAmount\<close> check are taken as
  part of \<open>addCallParameters\<close> and \<open>quoteCallParameters\<close>, which consume these objects:
  no call to the chain lies between a constructor and its consumer. \<open>addCallParameters\<close>
  gives the calldata and the value to send, the latter as the number that the script's
  \<open>BigInt(value)\<close> makes of it; \<open>decodeAbiParameters\<close> is the decoding of a single
  \<open>uint256\<close>.
\<close>

record lib =
  privateKeyToAccount :: "string \<Rightarrow> error + string"
  keccak_upper :: "string \<Rightarrow> nat \<Rightarrow> bool"
  validateAndParseAddress :: "string \<Rightarrow> error + string"
  nearestUsableTick :: "int \<Rightarrow> int \<Rightarrow> error + int"
  addCallParameters :: "Position \<Rightarrow> MintOptions \<Rightarrow> error + string \<times> int"
  quoteCallParameters :: "Pool \<Rightarrow> SdkToken \<Rightarrow> SdkToken \<Rightarrow> string \<Rightarrow> error + string"
  decodeAbiParameters :: "string \<Rightarrow> error + int"

text \<open>
  viem's \<open>getAddress\<close>: the argument must match \<open>0x[0-9a-fA-F]{40}\<close>; the result is its
  EIP-55 form, the lower-case digits with those letters in upper case whose hash digit
  is 8 or more.
\<close>

definition upper_char :: "char \<Rightarrow> char" where
  "upper_char c =
     (case map_of (zip ''abcdefghijklmnopqrstuvwxyz'' ''ABCDEFGHIJKLMNOPQRSTUVWXYZ'') c of
        None \<Rightarrow> c
      | Some d \<Rightarrow> d)"

definition is_hex :: "char \<Rightarrow> bool" where
  "is_hex c = (c \<in> set ''0123456789abcdefABCDEF'')"

definition isAddress :: "string \<Rightarrow> bool" where
  "isAddress a = (take 2 a = ''0x'' \<and> length a = 42 \<and> list_all is_hex (drop 2 a))"

definition checksumAddress :: "lib \<Rightarrow> string \<Rightarrow> string" where
  "checksumAddress L a =
     (let hexAddress = toLowerCase (drop 2 a)
      in ''0x'' @ map (\<lambda>(i, c). if keccak_upper L hexAddress i then upper_char c else c)
                     (zip [0 ..< length hexAddress] hexAddress))"

definition getAddress :: "lib \<Rightarrow> string \<Rightarrow> error + string" where
  "getAddress L a = (if isAddress a then Inr (checksumAddress L a) else Inl InvalidAddress)"

text \<open>\<open>s.slice(-n)\<close>: the last \<open>n\<close> characters, or all of \<open>s\<close> when it is shorter.\<close>

definition slice_last :: "nat \<Rightarrow> string \<Rightarrow> string" where
  "slice_last n s = drop (length s - n) s"

text \<open>
  \<open>nearestUsableTick\<close> of the Uniswap SDK, used where a concrete instance of the
  parameter is needed:
  \<^verbatim>\<open>invariant(tickSpacing > 0); invariant(MIN_TICK <= tick <= MAX_TICK)
  rounded = Math.round(tick / tickSpacing) * tickSpacing
  if (rounded < MIN_TICK) return rounded + tickSpacing
  else if (rounded > MAX_TICK) return rounded - tickSpacing
  else return rounded\<close>
  \<open>Math.round\<close> rounds a half upwards, so \<open>Math.round(t / s)\<close> is \<open>(2 t + s) div (2 s)\<close>.
\<close>

definition MAX_TICK :: int where "MAX_TICK = 887272"
definition MIN_TICK :: int where "MIN_TICK = - 887272"

definition sdk_nearestUsableTick :: "int \<Rightarrow> int \<Rightarrow> error + int" where
  "sdk_nearestUsableTick tick tickSpacing =
     (if \<not> tickSpacing > 0 then Inl (LibraryError ''TICK_SPACING'')
      else if \<not> (tick \<ge> MIN_TICK \<and> tick \<le> MAX_TICK) then Inl (LibraryError ''TICK_BOUND'')
      else let rounded = ((2 * tick + tickSpacing) div (2 * tickSpacing)) * tickSpacing
           in if rounded < MIN_TICK then Inr (rounded + tickSpacing)
              else if rounded > MAX_TICK then Inr (rounded - tickSpacing)
              else Inr rounded)"

section \<open>deployToken\<close>

definition deployToken :: "chain \<Rightarrow> string \<Rightarrow> string \<Rightarrow> string \<Rightarrow> int \<Rightarrow> Token io" where
  "deployToken C account name symbol supply =
     await (deployContract C account [Str name, Str symbol, UInt supply]) (\<lambda>hash.
     await (waitForTransactionReceipt C hash) (\<lambda>receipt.
     case contractAddress receipt of
       None \<Rightarrow> throw ContractAddressNotDefined
     | Some tokenContractAddress \<Rightarrow>
         if tokenContractAddress = [] then throw ContractAddressNotDefined
         else ret \<lparr>address = tokenContractAddress, tokenName = name,
                   tokenSymbol = symbol, tokenSupply = supply\<rparr>))"

section \<open>createPool\<close>

text \<open>
  Lines 180 to 187. A JavaScript string is truthy when it is not empty, so a log whose
  data is \<open>0x\<close> (no bytes) takes the second branch.
\<close>

definition resolvePoolAddress :: "lib \<Rightarrow> receipt \<Rightarrow> error + string" where
  "resolvePoolAddress L r =
     (if contractAddress r \<noteq> None \<and> contractAddress r \<noteq> Some []
      then Inr (the (contractAddress r))
      else (case logs r of
              [] \<Rightarrow> Inl PoolAddressNotDefined
            | l # _ \<Rightarrow>
                if data l \<noteq> [] then getAddress L (''0x'' @ slice_last 40 (data l))
                else Inl PoolAddressNotDefined))"

text \<open>
  Lines 193 to 196: \<open>BigInt(Math.floor(Math.sqrt(Number(startingPrice)) * 2 ** 96))\<close>,
  with \<open>startingPrice = 1n\<close>. The script computes in double precision; for this
  starting price the square root, the power of two and their product are represented
  exactly, so the value is that of the same expression over the reals.
\<close>

definition startingPrice :: int where
  "startingPrice = 1"

definition sqrtPriceX96 :: int where
  "sqrtPriceX96 = \<lfloor>sqrt (real_of_int startingPrice) * 2 ^ 96\<rfloor>"

definition createPool ::
  "lib \<Rightarrow> chain \<Rightarrow> string \<Rightarrow> Token \<Rightarrow> Token \<Rightarrow> Contracts \<Rightarrow> (string \<times> string) io" where
  "createPool L C account t1 t2 contracts =
     await (writeContract C (FACTORY_ADDRESS contracts) ''createPool''
              [Addr (address t1), Addr (address t2), UInt pool_fee] None) (\<lambda>hash.
     await (waitForTransactionReceipt C hash) (\<lambda>receipt.
     await (lift (resolvePoolAddress L receipt)) (\<lambda>pool_address.
     await (getTransactionCount C account) (\<lambda>nonce.
     await (writeContract C (NONFUNGIBLE_TOKEN_POSITION_MANAGER_ADDRESS contracts)
              ''createAndInitializePoolIfNecessary''
              [Addr (address t1), Addr (address t2), UInt pool_fee, UInt sqrtPriceX96]
              (Some nonce)) (\<lambda>initHash.
     await (waitForTransactionReceipt C initHash) (\<lambda>_.
     ret (pool_address, initHash)))))))"

section \<open>giveAllowances\<close>

text \<open>The body of the inner loop (lines 232 to 258), for one token and one spender.\<close>

definition allowanceStep :: "chain \<Rightarrow> string \<Rightarrow> Token \<Rightarrow> string \<Rightarrow> unit io" where
  "allowanceStep C account token contract =
     await (readContract C (Some (address token)) ''allowance''
              [Addr account, Addr contract]) (\<lambda>allowance.
     if allowance = 0
     then await (writeContract C (address token) ''approve''
                   [Addr contract, UInt (tokenSupply token)] None) (\<lambda>hash.
          await (waitForTransactionReceipt C hash) (\<lambda>_.
          ret ()))
     else ret ())"

fun forContracts :: "chain \<Rightarrow> string \<Rightarrow> Token \<Rightarrow> string list \<Rightarrow> unit io" where
  "forContracts C account token [] = ret ()"
| "forContracts C account token (contract # contracts) =
     await (allowanceStep C account token contract) (\<lambda>_.
     forContracts C account token contracts)"

fun giveAllowances :: "chain \<Rightarrow> string \<Rightarrow> Token list \<Rightarrow> string list \<Rightarrow> unit io" where
  "giveAllowances C account [] contracts = ret ()"
| "giveAllowances C account (token # tokens) contracts =
     await (forContracts C account token contracts) (\<lambda>_.
     giveAllowances C account tokens contracts)"

text \<open>
  The pairs of \<open>giveAllowances\<close> as one loop: the step of the inner loop, for each pair of
  a list in turn.
\<close>

fun forPairs :: "chain \<Rightarrow> string \<Rightarrow> (Token \<times> string) list \<Rightarrow> unit io" where
  "forPairs C account [] = ret ()"
| "forPairs C account ((token, contract) # ps) =
     await (allowanceStep C account token contract) (\<lambda>_.
     forPairs C account ps)"

section \<open>main\<close>

text \<open>
  Lines 467 to 470: \<open>String(parseEther(String(parseEther("1"))))\<close>, the raw amount given
  to \<open>CurrencyAmount.fromRawAmount\<close>.
\<close>

definition inputAmount :: "error + string" where
  "inputAmount =
     (case parseEther ''1'' of
        Inl e \<Rightarrow> Inl e
      | Inr one \<Rightarrow>
          (case parseEther (String_bigint one) of
             Inl e \<Rightarrow> Inl e
           | Inr raw \<Rightarrow> Inr (String_bigint raw)))"

text \<open>
  Lines 487 to 530: decoding the quoter's return data and the swap.
\<close>

definition exactInputSingle_args :: "string \<Rightarrow> string \<Rightarrow> string \<Rightarrow> int \<Rightarrow> arg list" where
  "exactInputSingle_args tokenIn tokenOut account amountIn =
     [Struct [(''tokenIn'', Addr tokenIn), (''tokenOut'', Addr tokenOut),
              (''recipient'', Addr account), (''amountIn'', UInt amountIn),
              (''amountOutMinimum'', UInt 0), (''sqrtPriceLimitX96'', UInt 0),
              (''fee'', UInt pool_fee)]]"

definition swapFromQuote ::
  "lib \<Rightarrow> chain \<Rightarrow> string \<Rightarrow> SdkToken \<Rightarrow> SdkToken \<Rightarrow> string option \<Rightarrow> unit io" where
  "swapFromQuote L C account tokensIn tokensOut quoteData =
     (if quoteData = None \<or> quoteData = Some [] then throw QuoteReturnDataNotDefined
      else
        await (lift (decodeAbiParameters L (the quoteData))) (\<lambda>amountIn.
        await (getTransactionCount C account) (\<lambda>nonce.
        await (writeContract C (SWAP_ROUTER_ADDRESS wantedContracts) ''exactInputSingle''
                 (exactInputSingle_args (sdk_address tokensIn) (sdk_address tokensOut)
                    account amountIn)
                 (Some nonce)) (\<lambda>swapHash.
        await (waitForTransactionReceipt C swapHash) (\<lambda>_.
        ret ())))))"

text \<open>Lines 463 to 485: the quote.\<close>

definition quoteAndSwap ::
  "lib \<Rightarrow> chain \<Rightarrow> string \<Rightarrow> SdkToken \<Rightarrow> SdkToken \<Rightarrow> Pool \<Rightarrow> unit io" where
  "quoteAndSwap L C account tokensIn tokensOut p =
     await (lift inputAmount) (\<lambda>amount.
     await (lift (quoteCallParameters L p tokensIn tokensOut amount)) (\<lambda>quote.
     await (eth_call C (QUOTER_V2_ADDRESS wantedContracts) quote) (\<lambda>quoteCallReturnData.
     swapFromQuote L C account tokensIn tokensOut quoteCallReturnData)))"

text \<open>
  Lines 419 to 424: the bounds of the position. \<open>nearestUsableTick\<close> is called once for
  each bound.
\<close>

definition tickRange ::
  "(int \<Rightarrow> int \<Rightarrow> error + int) \<Rightarrow> int \<Rightarrow> int \<Rightarrow> error + int \<times> int" where
  "tickRange nut tick tickSpacing =
     (case nut tick tickSpacing of
        Inl e \<Rightarrow> Inl e
      | Inr n1 \<Rightarrow>
          (case nut tick tickSpacing of
             Inl e \<Rightarrow> Inl e
           | Inr n2 \<Rightarrow> Inr (n1 - tickSpacing * 2, n2 + tickSpacing * 2)))"

text \<open>
  Lines 363 to 461: the pair is ordered again, the pool is read (the four reads of
  \<open>Promise.all\<close> are all started, then awaited), the position is built and minted.
\<close>

definition addLiquidity ::
  "lib \<Rightarrow> chain \<Rightarrow> config \<Rightarrow> string \<Rightarrow> Token \<Rightarrow> Token \<Rightarrow> string option \<Rightarrow> unit io" where
  "addLiquidity L C cfg account t1 t2 pool_address =
     (case orderPair t1 t2 of (t1', t2') \<Rightarrow>
     await (started (readContract C pool_address ''tickSpacing'' [])) (\<lambda>r1.
     await (started (readContract C pool_address ''fee'' [])) (\<lambda>r2.
     await (started (readContract C pool_address ''liquidity'' [])) (\<lambda>r3.
     await (started (readContract_slot0 C pool_address)) (\<lambda>r4.
     await (lift r1) (\<lambda>tickSpacing.
     await (lift r2) (\<lambda>fee'.
     await (lift r3) (\<lambda>liquidity'.
     await (lift r4) (\<lambda>slot0.
     let sqrtPriceX96' = fst slot0; tick = snd slot0 in
     await (lift (validateAndParseAddress L (address t1'))) (\<lambda>a1.
     await (lift (validateAndParseAddress L (address t2'))) (\<lambda>a2.
     let TokenOneUniswapSdkCore =
           \<lparr>sdk_chainId = abstractTestnet_id, sdk_address = a1, sdk_decimals = 18,
            sdk_name = tokenName t1', sdk_symbol = tokenSymbol t1'\<rparr>;
         TokenTwoUniswapSdkCore =
           \<lparr>sdk_chainId = abstractTestnet_id, sdk_address = a2, sdk_decimals = 18,
            sdk_name = tokenName t2', sdk_symbol = tokenSymbol t2'\<rparr>;
         p = \<lparr>tokenA = TokenOneUniswapSdkCore, tokenB = TokenTwoUniswapSdkCore, fee = fee',
              sqrtRatioX96 = String_bigint sqrtPriceX96',
              pool_liquidity = String_bigint liquidity', tickCurrent = tick\<rparr>
     in
     await (lift (parseEther ''500'')) (\<lambda>amount.
     await (lift (tickRange (nearestUsableTick L) tick tickSpacing)) (\<lambda>(lower, upper).
     let position = \<lparr>pool = p, liquidity = String_bigint amount,
                     tickLower = lower, tickUpper = upper\<rparr>;
         mintOptions = \<lparr>recipient = account, deadline = now cfg div 1000 + 60 * 20,
                        slippageTolerance = (5, 10000)\<rparr>
     in
     await (lift (addCallParameters L position mintOptions)) (\<lambda>(calldata, val).
     await (getTransactionCount C account) (\<lambda>nonce.
     await (prepareTransactionRequest C calldata
              (NONFUNGIBLE_TOKEN_POSITION_MANAGER_ADDRESS wantedContracts) val nonce) (\<lambda>request.
     await (signTransaction C request) (\<lambda>serializedTransaction.
     await (sendRawTransaction C serializedTransaction) (\<lambda>mintHash.
     await (waitForTransactionReceipt C mintHash) (\<lambda>_.
     quoteAndSwap L C account TokenOneUniswapSdkCore TokenTwoUniswapSdkCore p)))))))))))))))))))"

text \<open>Lines 328 to 352: the deployed pair is ordered, the pool created, the cache saved.\<close>

definition orderCreateSave ::
  "lib \<Rightarrow> chain \<Rightarrow> string \<Rightarrow> Token \<Rightarrow> Token \<Rightarrow> (Token \<times> Token \<times> string option) io" where
  "orderCreateSave L C account d1 d2 =
     (case orderPair d1 d2 of (t1, t2) \<Rightarrow>
     await (createPool L C account t1 t2 wantedContracts) (\<lambda>newPool.
     await (saveCache C \<lparr>tokenOne = Some (toCached t1), tokenTwo = Some (toCached t2),
                         poolAddress = Some (fst newPool)\<rparr>) (\<lambda>_.
     ret (t1, t2, Some (fst newPool)))))"

text \<open>Lines 311 to 352: the branch taken when the tokens have to be deployed.\<close>

definition bootstrap ::
  "lib \<Rightarrow> chain \<Rightarrow> string \<Rightarrow> (Token \<times> Token \<times> string option) io" where
  "bootstrap L C account =
     await (lift token_one_supply) (\<lambda>supply1.
     await (deployToken C account token_one_name token_one_symbol supply1) (\<lambda>d1.
     await (lift token_two_supply) (\<lambda>supply2.
     await (deployToken C account token_two_name token_two_symbol supply2) (\<lambda>d2.
     orderCreateSave L C account d1 d2))))"

text \<open>Lines 355 to 530: what follows the branch.\<close>

definition afterBootstrap ::
  "lib \<Rightarrow> chain \<Rightarrow> config \<Rightarrow> string \<Rightarrow> Token \<Rightarrow> Token \<Rightarrow> string option \<Rightarrow> unit io" where
  "afterBootstrap L C cfg account t1 t2 pool_address =
     await (giveAllowances C account [t1, t2]
              [NONFUNGIBLE_TOKEN_POSITION_MANAGER_ADDRESS wantedContracts,
               SWAP_ROUTER_ADDRESS wantedContracts]) (\<lambda>_.
     addLiquidity L C cfg account t1 t2 pool_address)"

definition main :: "lib \<Rightarrow> chain \<Rightarrow> config \<Rightarrow> Cache \<Rightarrow> unit io" where
  "main L C cfg cache =
     (if PRIVATE_KEY cfg = None \<or> PRIVATE_KEY cfg = Some [] then throw PrivateKeyNotDefined
      else
        await (lift (privateKeyToAccount L (''0x'' @ the (PRIVATE_KEY cfg)))) (\<lambda>account.
        await (lift (fromCached (tokenOne cache))) (\<lambda>t1.
        await (lift (fromCached (tokenTwo cache))) (\<lambda>t2.
        await (getBalance C account) (\<lambda>ethBalance.
        if ethBalance = 0 then throw NoEthBalance
        else
          await (if create cfg \<or> t1 = None \<or> t2 = None then bootstrap L C account
                 else ret (the t1, the t2, poolAddress cache)) (\<lambda>(t1', t2', pool_address).
          afterBootstrap L C cfg account t1' t2' pool_address))))))"

text \<open>The calls of a whole run, in order, and how it ended.\<close>

definition run :: "lib \<Rightarrow> chain \<Rightarrow> config \<Rightarrow> Cache \<Rightarrow> call list \<times> (error + unit)" where
  "run L C cfg cache = main L C cfg cache []"

section \<open>A concrete library, chain and configuration\<close>

text \<open>
  One instance of the parameters, on which the theorems below are exercised: a library
  whose functions succeed, and a chain that answers the two deployments with two
  addresses (the second deployed token has the smaller address), the creation of the
  pool with a receipt without contract address and one log, and every read with a value;
  an allowance is zero until the run has approved it.
\<close>

definition example_lib :: lib where
  "example_lib =
     \<lparr>privateKeyToAccount = (\<lambda>k. Inr ''0xf39Fd6e51aad88F6F4ce6aB8827279cffFb92266''),
      keccak_upper = (\<lambda>s i. even i),
      validateAndParseAddress = Inr,
      nearestUsableTick = sdk_nearestUsableTick,
      addCallParameters = (\<lambda>p m. Inr (''0xac9650d8'', 0)),
      quoteCallParameters = (\<lambda>p a b amount. Inr ''0xc6a5026a''),
      decodeAbiParameters = (\<lambda>d. Inr 42)\<rparr>"

definition example_receipt :: "string \<Rightarrow> receipt" where
  "example_receipt hash =
     (if hash = ''0xd1''
      then \<lparr>contractAddress = Some ''0xBbbbbbbbbbbbbbbbbbbbbbbbbbbbbbbbbbbbbbb1'', logs = []\<rparr>
      else if hash = ''0xd2''
      then \<lparr>contractAddress = Some ''0xaaaaaaaaaaaaaaaaaaaaaaaaaaaaaaaaaaaaaaa2'', logs = []\<rparr>
      else if hash = ''0xc1''
      then \<lparr>contractAddress = None,
            logs = [\<lparr>data = ''0x000000000000000000000000000000000000000000000000000000000000000a000000000000000000000000cccccccccccccccccccccccccccccccccccccccc''\<rparr>]\<rparr>
      else \<lparr>contractAddress = None, logs = []\<rparr>)"

text \<open>Whether the calls made so far hold an approval of the token for the spender.\<close>

definition approved :: "call list \<Rightarrow> string option \<Rightarrow> arg list \<Rightarrow> bool" where
  "approved h token spender =
     list_ex (\<lambda>c. case c of
                  WriteContract a f args n \<Rightarrow>
                    Some a = token \<and> f = ''approve'' \<and> take 1 args = spender
                | _ \<Rightarrow> False) h"

definition example_chain :: chain where
  "example_chain =
     \<lparr>tx_hash = (\<lambda>h c. Inr (case c of
                   DeployContract a args \<Rightarrow>
                     (if hd args = Str ''Pudgy'' then ''0xd1'' else ''0xd2'')
                 | WriteContract a f args n \<Rightarrow>
                     (if f = ''createPool'' then ''0xc1'' else ''0xee'')
                 | _ \<Rightarrow> ''0xee'')),
      tx_receipt = (\<lambda>h c. Inr (case c of
                   WaitForTransactionReceipt hash \<Rightarrow> example_receipt hash
                 | _ \<Rightarrow> example_receipt [])),
      uint_result = (\<lambda>h c. Inr (case c of
                   GetBalance a \<Rightarrow> 10 ^ 18
                 | GetTransactionCount a \<Rightarrow> 7
                 | ReadContract a f args \<Rightarrow>
                     (if f = ''allowance'' then (if approved h a (drop 1 args) then 10 ^ 21 else 0)
                      else if f = ''tickSpacing'' then 10
                      else if f = ''fee'' then 500
                      else 0)
                 | _ \<Rightarrow> 0)),
      slot0_result = (\<lambda>h c. Inr (2 ^ 96, 7)),
      call_result = (\<lambda>h c. Inr (Some ''0x000000000000000000000000000000000000000000000000000000000000002a'')),
      request_result = (\<lambda>h c. Inr ''0x02f8''),
      file_result = (\<lambda>h c. Inr ())\<rparr>"

definition example_config :: config where
  "example_config =
     \<lparr>PRIVATE_KEY = Some ''ac0974bec39a17e36ba4a6b4d238ff944bacb478cbed5efcae784d7bf4f2ff80'',
      argv = [''bun'', ''index.ts''], now = 1700000000000\<rparr>"

definition empty_cache :: Cache where
  "empty_cache = \<lparr>tokenOne = None, tokenTwo = None, poolAddress = None\<rparr>"

definition pudgy :: Token where
  "pudgy = \<lparr>address = ''0xBbbbbbbbbbbbbbbbbbbbbbbbbbbbbbbbbbbbbbb1'', tokenName = ''Pudgy'',
            tokenSymbol = ''PUDGY'', tokenSupply = 10 ^ 21\<rparr>"

definition penguin :: Token where
  "penguin = \<lparr>address = ''0xaaaaaaaaaaaaaaaaaaaaaaaaaaaaaaaaaaaaaaa2'', tokenName = ''Penguin'',
              tokenSymbol = ''PENGUIN'', tokenSupply = 10 ^ 21\<rparr>"

text \<open>The cache that a first run on \<open>example_chain\<close> leaves behind.\<close>

definition populated_cache :: Cache where
  "populated_cache =
     \<lparr>tokenOne = Some (toCached penguin), tokenTwo = Some (toCached pudgy),
      poolAddress = Some ''0xCcCcCcCcCcCcCcCcCcCcCcCcCcCcCcCcCcCcCcCc''\<rparr>"

text \<open>A cache with both token records and no pool address.\<close>

definition cache_without_pool :: Cache where
  "cache_without_pool =
     \<lparr>tokenOne = Some (toCached penguin), tokenTwo = Some (toCached pudgy),
      poolAddress = None\<rparr>"

definition example_account :: string where
  "example_account = ''0xf39Fd6e51aad88F6F4ce6aB8827279cffFb92266''"

section \<open>Reading a trace\<close>

text \<open>The calls of a trace that write to a contract function, and what they pass.\<close>

definition writes :: "string \<Rightarrow> call \<Rightarrow> bool" where
  "writes fn c = (case c of WriteContract a f args n \<Rightarrow> f = fn | _ \<Rightarrow> False)"

definition write_args :: "call \<Rightarrow> arg list" where
  "write_args c = (case c of WriteContract a f args n \<Rightarrow> args | _ \<Rightarrow> [])"

definition calls_to :: "string \<Rightarrow> call list \<Rightarrow> call list" where
  "calls_to fn cs = filter (writes fn) cs"

definition is_write :: "call \<Rightarrow> bool" where
  "is_write c = (case c of WriteContract a f args n \<Rightarrow> True | _ \<Rightarrow> False)"

definition is_deploy :: "call \<Rightarrow> bool" where
  "is_deploy c = (case c of DeployContract a args \<Rightarrow> True | _ \<Rightarrow> False)"

definition is_save :: "call \<Rightarrow> bool" where
  "is_save c = (case c of SaveCacheFile d \<Rightarrow> True | _ \<Rightarrow> False)"

text \<open>
  The calls of the bootstrap branch: a token deployment, the factory's \<open>createPool\<close>, the
  position manager's \<open>createAndInitializePoolIfNecessary\<close>, and the write of the cache
  file.
\<close>

definition bootstrap_call :: "call \<Rightarrow> bool" where
  "bootstrap_call c =
     (is_deploy c \<or> writes ''createPool'' c \<or> writes ''createAndInitializePoolIfNecessary'' c
      \<or> is_save c)"

text \<open>
  Whether a write of the cache file stores, for both tokens, the supply that the script
  mints, \<open>parseEther("1000")\<close>, as its decimal string. Every other call passes.
\<close>

definition saves_minted_supply :: "call \<Rightarrow> bool" where
  "saves_minted_supply c =
     (case c of
        SaveCacheFile d \<Rightarrow>
          map_option cached_tokenSupply (tokenOne d) = Some (String_bigint (10 ^ 21))
          \<and> map_option cached_tokenSupply (tokenTwo d) = Some (String_bigint (10 ^ 21))
      | _ \<Rightarrow> True)"

text \<open>The field of the single struct argument of a call, by name.\<close>

definition struct_field :: "string \<Rightarrow> arg list \<Rightarrow> arg option" where
  "struct_field name args = (case args of [Struct fs] \<Rightarrow> map_of fs name | _ \<Rightarrow> None)"

text \<open>
  Whether a \<open>createPool\<close> or initialize call passes two addresses of which the first is
  not the greater one, compared in lower case. Every other call passes.
\<close>

definition canonical_args :: "call \<Rightarrow> bool" where
  "canonical_args c =
     (if writes ''createPool'' c \<or> writes ''createAndInitializePoolIfNecessary'' c
      then (case write_args c of
              Addr a # Addr b # _ \<Rightarrow> \<not> toLowerCase b < toLowerCase a
            | _ \<Rightarrow> False)
      else True)"

text \<open>The monad in terms of the calls it can make.\<close>

definition emits :: "(call \<Rightarrow> bool) \<Rightarrow> 'a io \<Rightarrow> bool" where
  "emits P m = (\<forall>h. list_all P (fst (m h)))"

section \<open>Helper facts on digits\<close>

lemma digit_val_digit_char: "0 \<le> d \<Longrightarrow> d < 10 \<Longrightarrow> digit_val (digit_char d) = d"
proof -
  assume "0 \<le> d" "d < 10"
  then have "d = 0 \<or> d = 1 \<or> d = 2 \<or> d = 3 \<or> d = 4 \<or> d = 5 \<or> d = 6 \<or> d = 7 \<or> d = 8 \<or> d = 9"
    by arith
  then show ?thesis
    by (auto simp: digit_val_def digit_char_def)
qed

lemma is_digit_digit_char: "0 \<le> d \<Longrightarrow> d < 10 \<Longrightarrow> is_digit (digit_char d)"
proof -
  assume "0 \<le> d" "d < 10"
  then have "d = 0 \<or> d = 1 \<or> d = 2 \<or> d = 3 \<or> d = 4 \<or> d = 5 \<or> d = 6 \<or> d = 7 \<or> d = 8 \<or> d = 9"
    by arith
  then show ?thesis
    by (auto simp: is_digit_def digit_char_def)
qed

lemma digits_all_digit: "0 \<le> n \<Longrightarrow> list_all is_digit (digits n)"
proof (induction n rule: digits.induct)
  case (1 n)
  show ?case
  proof (cases "n < 10")
    case True
    then show ?thesis using "1.prems" by (subst digits.simps) (simp add: is_digit_digit_char)
  next
    case False
    with 1 have "list_all is_digit (digits (n div 10))" by simp
    moreover have "is_digit (digit_char (n mod 10))" by (simp add: is_digit_digit_char)
    ultimately show ?thesis using False by (subst digits.simps) simp
  qed
qed

lemma BigInt_snoc: "BigInt (s @ [c]) = 10 * BigInt s + digit_val c"
  by (simp add: BigInt_def)

lemma BigInt_digits: "0 \<le> n \<Longrightarrow> BigInt (digits n) = n"
proof (induction n rule: digits.induct)
  case (1 n)
  show ?case
  proof (cases "n < 10")
    case True
    then show ?thesis using "1.prems"
      by (subst digits.simps) (simp add: BigInt_def digit_val_digit_char)
  next
    case False
    with 1 have ih: "BigInt (digits (n div 10)) = n div 10" by simp
    have "BigInt (digits n) = 10 * (n div 10) + n mod 10"
      using False ih by (subst digits.simps) (simp add: BigInt_snoc digit_val_digit_char)
    then show ?thesis by simp
  qed
qed

lemma BigInt_zeros: "BigInt (s @ replicate k CHR ''0'') = BigInt s * 10 ^ k"
proof (induction k)
  case 0
  show ?case by simp
next
  case (Suc k)
  have "BigInt (s @ replicate (Suc k) CHR ''0'') =
        BigInt ((s @ replicate k CHR ''0'') @ [CHR ''0''])"
    by (simp add: replicate_append_same)
  also have "\<dots> = 10 * BigInt (s @ replicate k CHR ''0'')"
    by (simp only: BigInt_snoc) (simp add: digit_val_def)
  finally show ?case using Suc by simp
qed

lemma is_digit_not_point: "is_digit c \<Longrightarrow> c \<noteq> CHR ''.''"
  by (auto simp: is_digit_def)

lemma is_digit_not_minus: "is_digit c \<Longrightarrow> c \<noteq> CHR ''-''"
  by (auto simp: is_digit_def)

lemma parseEther_digit_string:
  assumes "list_all is_digit s"
  shows "parseEther s = Inr (BigInt s * 10 ^ 18)"
    and "parseEther (CHR ''-'' # s) = Inr (- (BigInt s * 10 ^ 18))"
proof -
  have nopoint: "\<forall>c\<in>set s. c \<noteq> CHR ''.''"
    using assms by (auto simp: list_all_iff is_digit_not_point)
  have tw: "takeWhile (\<lambda>c. c \<noteq> CHR ''.'') s = s"
    using nopoint by simp
  have dw: "dropWhile (\<lambda>c. c \<noteq> CHR ''.'') s = []"
    using nopoint by simp
  have noneg: "(case s of [] \<Rightarrow> False | c # _ \<Rightarrow> c = CHR ''-'') = False"
    using assms by (cases s) (auto simp: is_digit_not_minus)
  have zero: "is_digit CHR ''0''" by (simp add: is_digit_def)
  show "parseEther s = Inr (BigInt s * 10 ^ 18)"
    unfolding parseEther_def noneg
    using assms by (simp add: tw dw zero BigInt_zeros)
  show "parseEther (CHR ''-'' # s) = Inr (- (BigInt s * 10 ^ 18))"
    unfolding parseEther_def
    using assms by (simp add: tw dw zero BigInt_zeros)
qed

lemma parseEther_String_bigint: "parseEther (String_bigint n) = Inr (n * 10 ^ 18)"
proof (cases "n < 0")
  case True
  then have "list_all is_digit (digits (- n))" by (simp add: digits_all_digit)
  then show ?thesis using True
    by (simp add: String_bigint_def parseEther_digit_string(2) BigInt_digits)
next
  case False
  then have "list_all is_digit (digits n)" by (simp add: digits_all_digit)
  then show ?thesis using False
    by (simp add: String_bigint_def parseEther_digit_string(1) BigInt_digits)
qed

section \<open>Evaluating the script's literals\<close>

lemma parseEther_1: "parseEther ''1'' = Inr (10 ^ 18)"
  by (simp add: parseEther_digit_string(1) is_digit_def BigInt_def digit_val_def)

lemma parseEther_1000: "parseEther ''1000'' = Inr (10 ^ 21)"
  by (simp add: parseEther_digit_string(1) is_digit_def BigInt_def digit_val_def)

lemma sqrtPriceX96_code [code]: "sqrtPriceX96 = 2 ^ 96"
  by (simp add: sqrtPriceX96_def startingPrice_def)

lemma inputAmount_value: "inputAmount = Inr (String_bigint (10 ^ 36))"
  by (simp add: inputAmount_def parseEther_1 parseEther_String_bigint)

lemma String_bigint_inject: "String_bigint a = String_bigint b \<Longrightarrow> a = b"
proof -
  assume "String_bigint a = String_bigint b"
  then have "parseEther (String_bigint a) = parseEther (String_bigint b)" by simp
  then show "a = b" by (simp add: parseEther_String_bigint)
qed

section \<open>The input amount of the quote\<close>

text \<open>
  C3, as stated: the quote is requested for an input amount of \<open>10^18\<close> raw units. It
  fails: the raw amount handed to the quote is not the decimal string of \<open>10^18\<close>.
\<close>

theorem C3_input_amount_is_not_one_unit: "inputAmount \<noteq> Inr (String_bigint (10 ^ 18))"
proof
  assume "inputAmount = Inr (String_bigint (10 ^ 18))"
  then have "String_bigint (10 ^ 36) = String_bigint (10 ^ 18)"
    by (simp add: inputAmount_value)
  then have "(10::int) ^ 36 = 10 ^ 18" by (rule String_bigint_inject)
  then show False by simp
qed

text \<open>
  C3, amended: \<open>parseEther\<close> is applied twice to \<open>"1"\<close>, so the raw input amount is the
  decimal string of \<open>10^36\<close> (a one followed by 36 zeros), which is \<open>10^18\<close> whole units of
  an 18-decimals token; this string is what \<open>quoteCallParameters\<close> is called with.
\<close>

theorem C3_input_amount:
  "inputAmount = Inr (String_bigint (10 ^ 36))
   \<and> String_bigint (10 ^ 36) = ''1000000000000000000000000000000000000''
   \<and> parseEther (String_bigint (10 ^ 18)) = Inr (10 ^ 36)
   \<and> quoteAndSwap L C account tokensIn tokensOut p =
       await (lift (quoteCallParameters L p tokensIn tokensOut (String_bigint (10 ^ 36))))
         (\<lambda>quote. await (eth_call C (QUOTER_V2_ADDRESS wantedContracts) quote)
           (\<lambda>quoteCallReturnData.
              swapFromQuote L C account tokensIn tokensOut quoteCallReturnData))"
proof -
  have lit: "String_bigint (10 ^ 36) = ''1000000000000000000000000000000000000''"
    by code_simp
  have twice: "parseEther (String_bigint (10 ^ 18)) = Inr (10 ^ 36)"
    by (simp add: parseEther_String_bigint)
  have "await (lift inputAmount) f = f (String_bigint (10 ^ 36))" for f :: "string \<Rightarrow> unit io"
    by (simp add: inputAmount_value await_def lift_def)
  then show ?thesis
    using lit twice by (simp add: quoteAndSwap_def inputAmount_value)
qed

section \<open>The tick range of the position\<close>

text \<open>
  C7: for tick spacing \<open>s\<close> and live tick \<open>t\<close>, when \<open>nearestUsableTick\<close> returns a multiple
  of \<open>s\<close>, the bounds of the position are computed, the upper bound minus the lower one is
  \<open>4 s\<close>, and both bounds are multiples of \<open>s\<close>.
\<close>

theorem C7_tick_range:
  assumes "nut t s = Inr n" and "s dvd n"
  shows "tickRange nut t s = Inr (n - s * 2, n + s * 2)
         \<and> (n + s * 2) - (n - s * 2) = 4 * s
         \<and> s dvd (n - s * 2) \<and> s dvd (n + s * 2)"
proof -
  have "tickRange nut t s = Inr (n - s * 2, n + s * 2)"
    using assms(1) by (simp add: tickRange_def)
  moreover have "s dvd (n - s * 2)" "s dvd (n + s * 2)"
    using assms(2) by simp_all
  ultimately show ?thesis by simp
qed

theorem C7_tick_range_witness:
  "sdk_nearestUsableTick 7 10 = Inr 10 \<and> (10::int) dvd 10
   \<and> tickRange sdk_nearestUsableTick 7 10 = Inr (- 10, 30)"
proof -
  have n: "sdk_nearestUsableTick 7 10 = Inr 10"
    by (simp add: sdk_nearestUsableTick_def MIN_TICK_def MAX_TICK_def)
  have d: "(10::int) dvd 10" by simp
  show ?thesis
    using C7_tick_range [of sdk_nearestUsableTick 7 10 10, OF n d] n by simp
qed

section \<open>Laws of the trace monad\<close>

lemma await_lift_Inr: "await (lift (Inr x)) f = f x"
  by (rule ext) (simp add: await_def lift_def split: prod.splits)

lemma await_lift_Inl: "await (lift (Inl e)) f = throw e"
  by (rule ext) (simp add: await_def lift_def throw_def)

lemma await_ret: "await (ret x) f = f x"
  by (rule ext) (simp add: await_def ret_def split: prod.splits)

lemma await_throw: "await (throw e) f = throw e"
  by (rule ext) (simp add: await_def throw_def)

lemma await_rpc:
  "await (rpc answer c) f h =
     (case answer h c of
        Inl e \<Rightarrow> ([c], Inl e)
      | Inr x \<Rightarrow> (c # fst (f x (h @ [c])), snd (f x (h @ [c]))))"
  by (simp add: await_def rpc_def split: sum.splits prod.splits)

lemma await_started_rpc:
  "await (started (rpc answer c)) f h =
     (c # fst (f (answer h c) (h @ [c])), snd (f (answer h c) (h @ [c])))"
  by (simp add: await_def started_def rpc_def split: sum.splits prod.splits)

lemma await_assoc: "await (await m f) g = await m (\<lambda>x. await (f x) g)"
  by (rule ext) (simp add: await_def split: sum.splits prod.splits)

lemma fst_await:
  "fst (await m f h) =
     (case snd (m h) of
        Inl e \<Rightarrow> fst (m h)
      | Inr x \<Rightarrow> fst (m h) @ fst (f x (h @ fst (m h))))"
  by (simp add: await_def split: sum.splits prod.splits)

lemma snd_await:
  "snd (await m f h) =
     (case snd (m h) of
        Inl e \<Rightarrow> Inl e
      | Inr x \<Rightarrow> snd (f x (h @ fst (m h))))"
  by (simp add: await_def split: sum.splits prod.splits)

lemma emitsD: "emits P m \<Longrightarrow> list_all P (fst (m h))"
  by (simp add: emits_def)

lemma emits_ret: "emits P (ret x)"
  by (simp add: emits_def ret_def)

lemma emits_throw: "emits P (throw e)"
  by (simp add: emits_def throw_def)

lemma emits_lift: "emits P (lift r)"
  by (simp add: emits_def lift_def)

lemma emits_rpc: "P c \<Longrightarrow> emits P (rpc answer c)"
  by (simp add: emits_def rpc_def)

lemma emits_await: "emits P m \<Longrightarrow> (\<And>x. emits P (f x)) \<Longrightarrow> emits P (await m f)"
  by (simp add: emits_def fst_await split: sum.splits)

lemma emits_started: "emits P m \<Longrightarrow> emits P (started m)"
  by (simp add: emits_def started_def split: prod.splits) (metis fst_conv)

lemma emits_if:
  "(b \<Longrightarrow> emits P m) \<Longrightarrow> (\<not> b \<Longrightarrow> emits P n) \<Longrightarrow> emits P (if b then m else n)"
  by simp

lemma emits_case_prod: "(\<And>a b. emits P (f a b)) \<Longrightarrow> emits P (case p of (a, b) \<Rightarrow> f a b)"
  by (cases p) simp

lemma emits_case_option:
  "emits P n \<Longrightarrow> (\<And>a. emits P (f a)) \<Longrightarrow> emits P (case x of None \<Rightarrow> n | Some a \<Rightarrow> f a)"
  by (cases x) simp_all

lemma emits_mono: "emits P m \<Longrightarrow> (\<And>c. P c \<Longrightarrow> Q c) \<Longrightarrow> emits Q m"
  by (auto simp: emits_def list_all_iff)

lemmas emits_intros =
  emits_await emits_ret emits_throw emits_lift emits_started emits_if emits_case_prod
  emits_case_option

lemmas gateway_defs =
  deployContract_def writeContract_def sendRawTransaction_def waitForTransactionReceipt_def
  readContract_def readContract_slot0_def getBalance_def getTransactionCount_def
  prepareTransactionRequest_def signTransaction_def eth_call_def saveCache_def

lemmas trace_defs =
  writes_def write_args_def calls_to_def is_write_def is_deploy_def is_save_def
  bootstrap_call_def

section \<open>createPool\<close>

lemma createPool_success:
  assumes "createPool L C account t1 t2 contracts h = (cs, Inr (pa, ih))"
  shows "\<exists>hash nonce.
           cs = [WriteContract (FACTORY_ADDRESS contracts) ''createPool''
                   [Addr (address t1), Addr (address t2), UInt 500] None,
                 WaitForTransactionReceipt hash,
                 GetTransactionCount account,
                 WriteContract (NONFUNGIBLE_TOKEN_POSITION_MANAGER_ADDRESS contracts)
                   ''createAndInitializePoolIfNecessary''
                   [Addr (address t1), Addr (address t2), UInt 500, UInt (2 ^ 96)] (Some nonce),
                 WaitForTransactionReceipt ih]"
  using assms
  by (auto simp: createPool_def gateway_defs rpc_def await_def lift_def ret_def pool_fee_def
      sqrtPriceX96_code split: sum.splits prod.splits)

lemma createPool_emits:
  assumes "\<And>c. \<not> is_write c \<Longrightarrow> P c"
    and "\<And>to n. P (WriteContract to ''createPool''
                     [Addr (address t1), Addr (address t2), UInt 500] n)"
    and "\<And>to n. P (WriteContract to ''createAndInitializePoolIfNecessary''
                     [Addr (address t1), Addr (address t2), UInt 500, UInt (2 ^ 96)] n)"
  shows "emits P (createPool L C account t1 t2 contracts)"
  unfolding createPool_def gateway_defs pool_fee_def sqrtPriceX96_code
  by (intro emits_intros emits_rpc assms) (simp_all add: is_write_def)

lemma example_createPool:
  "createPool example_lib example_chain ''0xf39Fd6e51aad88F6F4ce6aB8827279cffFb92266''
     penguin pudgy wantedContracts [] =
   ([WriteContract ''0x2E17FF9b877661bDFEF8879a4B31665157a960F0'' ''createPool''
       [Addr ''0xaaaaaaaaaaaaaaaaaaaaaaaaaaaaaaaaaaaaaaa2'',
        Addr ''0xBbbbbbbbbbbbbbbbbbbbbbbbbbbbbbbbbbbbbbb1'', UInt 500] None,
     WaitForTransactionReceipt ''0xc1'',
     GetTransactionCount ''0xf39Fd6e51aad88F6F4ce6aB8827279cffFb92266'',
     WriteContract ''0x069f199763c045A294C7913E64bA80E5F362A5d7''
       ''createAndInitializePoolIfNecessary''
       [Addr ''0xaaaaaaaaaaaaaaaaaaaaaaaaaaaaaaaaaaaaaaa2'',
        Addr ''0xBbbbbbbbbbbbbbbbbbbbbbbbbbbbbbbbbbbbbbb1'', UInt 500, UInt (2 ^ 96)] (Some 7),
     WaitForTransactionReceipt ''0xee''],
    Inr (''0xCcCcCcCcCcCcCcCcCcCcCcCcCcCcCcCcCcCcCcCc'', ''0xee''))"
  by code_simp

section \<open>The initial price\<close>

text \<open>
  C9: the initial price is \<open>floor(sqrt(startingPrice) * 2^96)\<close> with the starting price 1
  of the script, which is \<open>2^96\<close>. Every initialize call that \<open>createPool\<close> makes passes
  this value as its fourth argument, and a \<open>createPool\<close> that returns has made exactly one.
\<close>

theorem C9_initial_price:
  "sqrtPriceX96 = \<lfloor>sqrt (real_of_int startingPrice) * 2 ^ 96\<rfloor>
   \<and> startingPrice = 1
   \<and> sqrtPriceX96 = 2 ^ 96
   \<and> list_all (\<lambda>c. write_args c = [Addr (address t1), Addr (address t2), UInt 500, UInt (2 ^ 96)])
        (calls_to ''createAndInitializePoolIfNecessary''
           (fst (createPool L C account t1 t2 contracts h)))
   \<and> (snd (createPool L C account t1 t2 contracts h) = Inr (pa, ih) \<longrightarrow>
        map write_args (calls_to ''createAndInitializePoolIfNecessary''
           (fst (createPool L C account t1 t2 contracts h))) =
        [[Addr (address t1), Addr (address t2), UInt 500, UInt (2 ^ 96)]])"
proof -
  let ?init = "[Addr (address t1), Addr (address t2), UInt 500, UInt (2 ^ 96)]"
  let ?P = "\<lambda>c. writes ''createAndInitializePoolIfNecessary'' c \<longrightarrow> write_args c = ?init"
  have "emits ?P (createPool L C account t1 t2 contracts)"
    by (rule createPool_emits) (auto simp: trace_defs split: call.splits)
  then have "list_all ?P (fst (createPool L C account t1 t2 contracts h))"
    by (rule emitsD)
  then have all: "list_all (\<lambda>c. write_args c = ?init)
        (calls_to ''createAndInitializePoolIfNecessary''
           (fst (createPool L C account t1 t2 contracts h)))"
    by (simp add: calls_to_def list_all_iff)
  have one: "map write_args (calls_to ''createAndInitializePoolIfNecessary''
           (fst (createPool L C account t1 t2 contracts h))) = [?init]"
    if "snd (createPool L C account t1 t2 contracts h) = Inr (pa, ih)"
  proof -
    from that have "createPool L C account t1 t2 contracts h =
        (fst (createPool L C account t1 t2 contracts h), Inr (pa, ih))"
      by (metis prod.collapse)
    from createPool_success [OF this] show ?thesis
      by (auto simp: trace_defs)
  qed
  show ?thesis
    using all one by (simp add: sqrtPriceX96_def startingPrice_def)
qed

theorem C9_initial_price_witness:
  "snd (createPool example_lib example_chain ''0xf39Fd6e51aad88F6F4ce6aB8827279cffFb92266''
          penguin pudgy wantedContracts []) =
     Inr (''0xCcCcCcCcCcCcCcCcCcCcCcCcCcCcCcCcCcCcCcCc'', ''0xee'')
   \<and> map write_args (calls_to ''createAndInitializePoolIfNecessary''
        (fst (createPool example_lib example_chain ''0xf39Fd6e51aad88F6F4ce6aB8827279cffFb92266''
                penguin pudgy wantedContracts []))) =
      [[Addr (address penguin), Addr (address pudgy), UInt 500, UInt (2 ^ 96)]]"
proof -
  have r: "snd (createPool example_lib example_chain ''0xf39Fd6e51aad88F6F4ce6aB8827279cffFb92266''
          penguin pudgy wantedContracts []) =
     Inr (''0xCcCcCcCcCcCcCcCcCcCcCcCcCcCcCcCcCcCcCcCc'', ''0xee'')"
    by (simp add: example_createPool)
  show ?thesis
    using C9_initial_price [of penguin pudgy example_lib example_chain
        "''0xf39Fd6e51aad88F6F4ce6aB8827279cffFb92266''" wantedContracts "[]"
        "''0xCcCcCcCcCcCcCcCcCcCcCcCcCcCcCcCcCcCcCcCc''" "''0xee''"] r
    by blast
qed

section \<open>Resolving the pool address\<close>

lemma lower_upper: "lower_char (upper_char c) = lower_char c"
  by (simp add: lower_char_def upper_char_def)

lemma lower_lower: "lower_char (lower_char c) = lower_char c"
  by (simp add: lower_char_def)

lemma map_lower_zip:
  "length ns = length xs \<Longrightarrow> map (\<lambda>p. lower_char (snd p)) (zip ns xs) = map lower_char xs"
  by (induction ns xs rule: list_induct2) simp_all

lemma toLowerCase_checksumAddress:
  "toLowerCase (checksumAddress L a) = ''0x'' @ toLowerCase (drop 2 a)"
proof -
  let ?hex = "toLowerCase (drop 2 a)"
  let ?f = "\<lambda>(i, c). if keccak_upper L ?hex i then upper_char c else c"
  have "map lower_char (map ?f (zip [0 ..< length ?hex] ?hex)) =
        map (\<lambda>p. lower_char (snd p)) (zip [0 ..< length ?hex] ?hex)"
    by (auto simp: lower_upper)
  also have "\<dots> = map lower_char ?hex"
    by (rule map_lower_zip) simp
  also have "\<dots> = ?hex"
    by (simp add: toLowerCase_def lower_lower)
  finally have "map lower_char (map ?f (zip [0 ..< length ?hex] ?hex)) = ?hex" .
  moreover have "map lower_char ''0x'' = ''0x''"
    by (simp add: lower_char_def)
  ultimately show ?thesis
    by (simp add: checksumAddress_def toLowerCase_def Let_def del: map_map)
qed

lemma getAddress_hex:
  assumes "length X = 40" and "list_all is_hex X"
  shows "getAddress L (''0x'' @ X) = Inr (checksumAddress L (''0x'' @ X))"
  using assms by (simp add: getAddress_def isAddress_def)

lemma slice_last_append: "length X = n \<Longrightarrow> slice_last n (pre @ X) = X"
  by (simp add: slice_last_def)

text \<open>
  C6, as stated: whenever the first log has data, the address made of its last 20 bytes is
  returned. It fails for data of fewer than 20 bytes: the first log below has data, of
  two bytes, and no address comes back; the same happens for the empty data \<open>0x\<close>, which
  is a non-empty string. The error is the one of \<open>getAddress\<close>, not that of the last
  branch.
\<close>

theorem C6_short_log_data:
  "resolvePoolAddress example_lib \<lparr>contractAddress = None, logs = [\<lparr>data = ''0x1234''\<rparr>]\<rparr>
     = Inl InvalidAddress
   \<and> resolvePoolAddress example_lib \<lparr>contractAddress = None, logs = [\<lparr>data = ''0x''\<rparr>]\<rparr>
     = Inl InvalidAddress"
  by (simp add: resolvePoolAddress_def getAddress_def isAddress_def slice_last_def)

text \<open>
  C6, amended: a contract address on the receipt is returned as it is. Without one, if
  the data of the first log ends in the 40 hexadecimal digits \<open>X\<close> (its last 20 bytes),
  the EIP-55 form of the address \<open>0x\<close>\<open>X\<close> is returned: the same address, with the case of
  its letters set by the checksum. With no contract address and no first log, or a first
  log whose data is the empty string, the operation fails with the error that the pool
  address is not defined.
\<close>

theorem C6_pool_address_resolution:
  "(contractAddress r = Some a \<and> a \<noteq> [] \<longrightarrow> resolvePoolAddress L r = Inr a)
   \<and> ((contractAddress r = None \<or> contractAddress r = Some [])
        \<and> logs r = l # ls \<and> data l = pre @ X \<and> length X = 40 \<and> list_all is_hex X \<longrightarrow>
        resolvePoolAddress L r = Inr (checksumAddress L (''0x'' @ X))
        \<and> toLowerCase (checksumAddress L (''0x'' @ X)) = toLowerCase (''0x'' @ X))
   \<and> ((contractAddress r = None \<or> contractAddress r = Some [])
        \<and> (logs r = [] \<or> (logs r = l # ls \<and> data l = [])) \<longrightarrow>
        resolvePoolAddress L r = Inl PoolAddressNotDefined)"
proof (intro conjI impI)
  assume "contractAddress r = Some a \<and> a \<noteq> []"
  then show "resolvePoolAddress L r = Inr a"
    by (simp add: resolvePoolAddress_def)
next
  assume h: "(contractAddress r = None \<or> contractAddress r = Some [])
        \<and> logs r = l # ls \<and> data l = pre @ X \<and> length X = 40 \<and> list_all is_hex X"
  then have "slice_last 40 (data l) = X" "data l \<noteq> []"
    by (auto simp: slice_last_append)
  moreover have "getAddress L (''0x'' @ X) = Inr (checksumAddress L (''0x'' @ X))"
    using h by (intro getAddress_hex) blast+
  ultimately show "resolvePoolAddress L r = Inr (checksumAddress L (''0x'' @ X))"
    using h by (auto simp: resolvePoolAddress_def)
next
  show "toLowerCase (checksumAddress L (''0x'' @ X)) = toLowerCase (''0x'' @ X)"
    by (simp add: toLowerCase_checksumAddress) (simp add: toLowerCase_def lower_char_def)
next
  assume "(contractAddress r = None \<or> contractAddress r = Some [])
        \<and> (logs r = [] \<or> (logs r = l # ls \<and> data l = []))"
  then show "resolvePoolAddress L r = Inl PoolAddressNotDefined"
    by (auto simp: resolvePoolAddress_def)
qed

theorem C6_pool_address_resolution_witness:
  "resolvePoolAddress example_lib (example_receipt ''0xd1'') =
     Inr ''0xBbbbbbbbbbbbbbbbbbbbbbbbbbbbbbbbbbbbbbb1''
   \<and> resolvePoolAddress example_lib (example_receipt ''0xc1'') =
     Inr (checksumAddress example_lib (''0x'' @ ''cccccccccccccccccccccccccccccccccccccccc''))
   \<and> toLowerCase (checksumAddress example_lib (''0x'' @ ''cccccccccccccccccccccccccccccccccccccccc''))
       = toLowerCase (''0x'' @ ''cccccccccccccccccccccccccccccccccccccccc'')
   \<and> resolvePoolAddress example_lib (example_receipt ''0xee'') = Inl PoolAddressNotDefined"
proof -
  let ?pre = "''0x000000000000000000000000000000000000000000000000000000000000000a000000000000000000000000''"
  let ?X = "''cccccccccccccccccccccccccccccccccccccccc''"
  have 1: "contractAddress (example_receipt ''0xd1'') = Some ''0xBbbbbbbbbbbbbbbbbbbbbbbbbbbbbbbbbbbbbbb1''
           \<and> ''0xBbbbbbbbbbbbbbbbbbbbbbbbbbbbbbbbbbbbbbb1'' \<noteq> []"
    by (simp add: example_receipt_def)
  have 2: "(contractAddress (example_receipt ''0xc1'') = None
              \<or> contractAddress (example_receipt ''0xc1'') = Some [])
           \<and> logs (example_receipt ''0xc1'') = \<lparr>data = ?pre @ ?X\<rparr> # []
           \<and> data \<lparr>data = ?pre @ ?X\<rparr> = ?pre @ ?X \<and> length ?X = 40 \<and> list_all is_hex ?X"
    by (simp add: example_receipt_def is_hex_def)
  have 3: "(contractAddress (example_receipt ''0xee'') = None
              \<or> contractAddress (example_receipt ''0xee'') = Some [])
           \<and> (logs (example_receipt ''0xee'') = []
                \<or> (logs (example_receipt ''0xee'') = l # ls \<and> data l = []))" for l ls
    by (simp add: example_receipt_def)
  have "resolvePoolAddress example_lib (example_receipt ''0xd1'') =
          Inr ''0xBbbbbbbbbbbbbbbbbbbbbbbbbbbbbbbbbbbbbbb1''"
    using C6_pool_address_resolution
            [where r = "example_receipt ''0xd1''"
               and a = "''0xBbbbbbbbbbbbbbbbbbbbbbbbbbbbbbbbbbbbbbb1''" and L = example_lib,
             THEN conjunct1, THEN mp, OF 1] .
  moreover have "resolvePoolAddress example_lib (example_receipt ''0xc1'') =
                   Inr (checksumAddress example_lib (''0x'' @ ?X))
                 \<and> toLowerCase (checksumAddress example_lib (''0x'' @ ?X)) =
                   toLowerCase (''0x'' @ ?X)"
    using C6_pool_address_resolution
            [where r = "example_receipt ''0xc1''" and l = "\<lparr>data = ?pre @ ?X\<rparr>"
               and ls = "[]" and pre = ?pre and X = ?X and L = example_lib,
             THEN conjunct2, THEN conjunct1, THEN mp, OF 2] .
  moreover have "resolvePoolAddress example_lib (example_receipt ''0xee'') =
                   Inl PoolAddressNotDefined"
    using C6_pool_address_resolution
            [where r = "example_receipt ''0xee''" and L = example_lib,
             THEN conjunct2, THEN conjunct2, THEN mp, OF 3] .
  ultimately show ?thesis
    by (simp only: simp_thms)
qed

section \<open>Allowances\<close>

lemma forPairs_append:
  "forPairs C account (ps @ qs) = await (forPairs C account ps) (\<lambda>_. forPairs C account qs)"
  by (induction ps) (auto simp: await_ret await_assoc)

lemma forContracts_forPairs:
  "forContracts C account token contracts = forPairs C account (map (Pair token) contracts)"
  by (induction contracts) simp_all

lemma giveAllowances_forPairs:
  "giveAllowances C account tokens contracts =
   forPairs C account (List.product tokens contracts)"
  by (induction tokens) (simp_all add: forPairs_append forContracts_forPairs)

text \<open>
  \<open>giveAllowances\<close> runs the step of its inner loop for each pair of a token and a
  spender, in the order of the two loops. At any point of a run, a step that reads a
  nonzero allowance makes no other call; a step that reads zero makes exactly one write,
  the approval of the \<open>tokenSupply\<close> of the record it was given.
\<close>

lemma allowanceStep_outcomes:
  "giveAllowances C account tokens contracts = forPairs C account (List.product tokens contracts)
   \<and> (uint_result C h (ReadContract (Some (address token)) ''allowance''
                         [Addr account, Addr contract]) = Inr a \<and> a \<noteq> 0 \<longrightarrow>
        allowanceStep C account token contract h =
          ([ReadContract (Some (address token)) ''allowance'' [Addr account, Addr contract]],
           Inr ()))
   \<and> (uint_result C h (ReadContract (Some (address token)) ''allowance''
                         [Addr account, Addr contract]) = Inr 0 \<longrightarrow>
        filter is_write (fst (allowanceStep C account token contract h)) =
          [WriteContract (address token) ''approve''
             [Addr contract, UInt (tokenSupply token)] None]
        \<and> filter is_deploy (fst (allowanceStep C account token contract h)) = [])"
  by (auto simp: giveAllowances_forPairs allowanceStep_def gateway_defs await_def rpc_def
      ret_def is_write_def is_deploy_def split: sum.splits prod.splits)

lemma allowanceStep_amount:
  "list_all (\<lambda>c. write_args c = [Addr contract, UInt (tokenSupply token)])
     (calls_to ''approve'' (fst (allowanceStep C account token contract h)))"
  by (auto simp: allowanceStep_def gateway_defs await_def rpc_def ret_def writes_def
      write_args_def calls_to_def split: sum.splits prod.splits)

text \<open>
  C5 says that the approval grants the token's total supply, which is the minted
  \<open>10^21\<close>. The step approves the \<open>tokenSupply\<close> of the record it is given. In a bootstrap
  run the records come from \<open>deployToken\<close> and hold the minted supply: on the example chain,
  where all four allowances are zero, the four approvals are of \<open>10^21\<close>. In a run resumed
  from the cache that this bootstrap wrote, the records come from the cache, where the
  string of the minted supply has gone through \<open>parseEther\<close>: the four approvals are of
  \<open>10^39\<close>, not of the total supply.
\<close>

theorem C5_resumed_run_approves_scaled_supply:
  "list_all (\<lambda>c. write_args c = [Addr contract, UInt (tokenSupply token)])
     (calls_to ''approve'' (fst (allowanceStep C account token contract h)))
   \<and> token_one_supply = Inr (10 ^ 21) \<and> token_two_supply = Inr (10 ^ 21)
   \<and> map write_args (calls_to ''approve''
          (fst (run example_lib example_chain example_config empty_cache))) =
       [[Addr (NONFUNGIBLE_TOKEN_POSITION_MANAGER_ADDRESS wantedContracts), UInt (10 ^ 21)],
        [Addr (SWAP_ROUTER_ADDRESS wantedContracts), UInt (10 ^ 21)],
        [Addr (NONFUNGIBLE_TOKEN_POSITION_MANAGER_ADDRESS wantedContracts), UInt (10 ^ 21)],
        [Addr (SWAP_ROUTER_ADDRESS wantedContracts), UInt (10 ^ 21)]]
   \<and> map write_args (calls_to ''approve''
          (fst (run example_lib example_chain example_config populated_cache))) =
       [[Addr (NONFUNGIBLE_TOKEN_POSITION_MANAGER_ADDRESS wantedContracts), UInt (10 ^ 39)],
        [Addr (SWAP_ROUTER_ADDRESS wantedContracts), UInt (10 ^ 39)],
        [Addr (NONFUNGIBLE_TOKEN_POSITION_MANAGER_ADDRESS wantedContracts), UInt (10 ^ 39)],
        [Addr (SWAP_ROUTER_ADDRESS wantedContracts), UInt (10 ^ 39)]]"
proof -
  have bootstrap_run:
    "map write_args (calls_to ''approve''
          (fst (run example_lib example_chain example_config empty_cache))) =
       [[Addr (NONFUNGIBLE_TOKEN_POSITION_MANAGER_ADDRESS wantedContracts), UInt (10 ^ 21)],
        [Addr (SWAP_ROUTER_ADDRESS wantedContracts), UInt (10 ^ 21)],
        [Addr (NONFUNGIBLE_TOKEN_POSITION_MANAGER_ADDRESS wantedContracts), UInt (10 ^ 21)],
        [Addr (SWAP_ROUTER_ADDRESS wantedContracts), UInt (10 ^ 21)]]"
    by code_simp
  have resumed_run:
    "map write_args (calls_to ''approve''
          (fst (run example_lib example_chain example_config populated_cache))) =
       [[Addr (NONFUNGIBLE_TOKEN_POSITION_MANAGER_ADDRESS wantedContracts), UInt (10 ^ 39)],
        [Addr (SWAP_ROUTER_ADDRESS wantedContracts), UInt (10 ^ 39)],
        [Addr (NONFUNGIBLE_TOKEN_POSITION_MANAGER_ADDRESS wantedContracts), UInt (10 ^ 39)],
        [Addr (SWAP_ROUTER_ADDRESS wantedContracts), UInt (10 ^ 39)]]"
    by code_simp
  have "token_one_supply = Inr (10 ^ 21)" "token_two_supply = Inr (10 ^ 21)"
    by (simp_all add: token_one_supply_def token_two_supply_def parseEther_1000)
  with bootstrap_run resumed_run show ?thesis
    by (intro conjI) (rule allowanceStep_amount, assumption+)
qed

section \<open>What each part of main can call\<close>

lemma allowanceStep_emits:
  "emits (\<lambda>c. \<not> bootstrap_call c) (allowanceStep C account token contract)"
  unfolding allowanceStep_def gateway_defs
  by (intro emits_intros emits_rpc) (simp_all add: trace_defs)

lemma forPairs_emits: "emits (\<lambda>c. \<not> bootstrap_call c) (forPairs C account ps)"
  by (induction ps) (auto intro!: emits_intros allowanceStep_emits)

lemma giveAllowances_emits:
  "emits (\<lambda>c. \<not> bootstrap_call c) (giveAllowances C account tokens contracts)"
  by (simp add: giveAllowances_forPairs forPairs_emits)

lemma swapFromQuote_emits:
  "emits (\<lambda>c. \<not> bootstrap_call c) (swapFromQuote L C account tokensIn tokensOut quoteData)"
  unfolding swapFromQuote_def gateway_defs
  by (intro emits_intros emits_rpc) (simp_all add: trace_defs)

lemma quoteAndSwap_emits:
  "emits (\<lambda>c. \<not> bootstrap_call c) (quoteAndSwap L C account tokensIn tokensOut p)"
  unfolding quoteAndSwap_def gateway_defs
  by (intro emits_intros emits_rpc swapFromQuote_emits) (simp_all add: trace_defs)

lemma addLiquidity_emits:
  "emits (\<lambda>c. \<not> bootstrap_call c) (addLiquidity L C cfg account t1 t2 pool_address)"
  unfolding addLiquidity_def gateway_defs Let_def
  by (intro emits_intros emits_rpc quoteAndSwap_emits) (simp_all add: trace_defs)

lemma afterBootstrap_emits:
  "emits (\<lambda>c. \<not> bootstrap_call c) (afterBootstrap L C cfg account t1 t2 pool_address)"
  unfolding afterBootstrap_def
  by (intro emits_intros giveAllowances_emits addLiquidity_emits)

lemma deployToken_emits:
  "(\<And>c. \<not> is_write c \<Longrightarrow> P c) \<Longrightarrow> emits P (deployToken C account name symbol supply)"
  unfolding deployToken_def gateway_defs
  by (intro emits_intros emits_rpc) (simp_all add: is_write_def)

lemma orderPair_cases:
  "orderPair a b = (a, b) \<and> toLowerCase (address a) < toLowerCase (address b)
   \<or> orderPair a b = (b, a) \<and> \<not> toLowerCase (address a) < toLowerCase (address b)"
  by (simp add: orderPair_def)

lemma orderPair_not_greater:
  "\<not> toLowerCase (address (snd (orderPair a b))) < toLowerCase (address (fst (orderPair a b)))"
  using orderPair_cases [of a b] by auto

lemma orderPair_commute:
  "toLowerCase (address a) \<noteq> toLowerCase (address b) \<Longrightarrow> orderPair a b = orderPair b a"
  by (auto simp: orderPair_def)

lemma orderPair_less:
  "toLowerCase (address a) \<noteq> toLowerCase (address b) \<Longrightarrow>
   toLowerCase (address (fst (orderPair a b))) < toLowerCase (address (snd (orderPair a b)))"
  by (auto simp: orderPair_def)

lemma orderCreateSave_emits:
  assumes "\<And>c. \<not> is_write c \<Longrightarrow> P c"
    and "\<And>to n. P (WriteContract to ''createPool''
                     [Addr (address (fst (orderPair d1 d2))),
                      Addr (address (snd (orderPair d1 d2))), UInt 500] n)"
    and "\<And>to n. P (WriteContract to ''createAndInitializePoolIfNecessary''
                     [Addr (address (fst (orderPair d1 d2))),
                      Addr (address (snd (orderPair d1 d2))), UInt 500, UInt (2 ^ 96)] n)"
  shows "emits P (orderCreateSave L C account d1 d2)"
proof -
  obtain t1 t2 where o: "orderPair d1 d2 = (t1, t2)" by (cases "orderPair d1 d2")
  have "emits P (createPool L C account t1 t2 wantedContracts)"
    using assms o by (intro createPool_emits) simp_all
  then show ?thesis
    unfolding orderCreateSave_def o saveCache_def
    by (auto intro!: emits_intros emits_rpc assms(1) simp: is_write_def)
qed

lemma canonical_args_not_write: "\<not> is_write c \<Longrightarrow> canonical_args c"
  by (cases c) (simp_all add: canonical_args_def trace_defs)

lemma canonical_args_not_bootstrap: "\<not> bootstrap_call c \<Longrightarrow> canonical_args c"
  by (simp add: canonical_args_def bootstrap_call_def)

lemma bootstrap_emits_canonical: "emits canonical_args (bootstrap L C account)"
  unfolding bootstrap_def
  by (intro emits_intros deployToken_emits [OF canonical_args_not_write]
        orderCreateSave_emits [where P = canonical_args, OF canonical_args_not_write])
     (simp_all add: canonical_args_def trace_defs orderPair_not_greater)

lemma main_emits_canonical: "emits canonical_args (main L C cfg cache)"
  unfolding main_def getBalance_def
  by (intro emits_intros emits_rpc bootstrap_emits_canonical
        emits_mono [OF afterBootstrap_emits canonical_args_not_bootstrap])
     (simp_all add: canonical_args_def trace_defs)

lemma orderCreateSave_success:
  assumes "orderCreateSave L C account d1 d2 h = (cs, Inr res)"
  shows "\<exists>hash nonce ih saved.
           cs = [WriteContract (FACTORY_ADDRESS wantedContracts) ''createPool''
                   [Addr (address (fst (orderPair d1 d2))),
                    Addr (address (snd (orderPair d1 d2))), UInt 500] None,
                 WaitForTransactionReceipt hash,
                 GetTransactionCount account,
                 WriteContract (NONFUNGIBLE_TOKEN_POSITION_MANAGER_ADDRESS wantedContracts)
                   ''createAndInitializePoolIfNecessary''
                   [Addr (address (fst (orderPair d1 d2))),
                    Addr (address (snd (orderPair d1 d2))), UInt 500, UInt (2 ^ 96)]
                   (Some nonce),
                 WaitForTransactionReceipt ih,
                 SaveCacheFile saved]"
proof -
  obtain t1 t2 where o: "orderPair d1 d2 = (t1, t2)" by (cases "orderPair d1 d2")
  from assms obtain cs1 pa ih cs2 where
    cp: "createPool L C account t1 t2 wantedContracts h = (cs1, Inr (pa, ih))"
    and rest: "cs = cs1 @ cs2" "\<exists>saved. cs2 = [SaveCacheFile saved]"
    by (auto simp: orderCreateSave_def o await_def saveCache_def rpc_def ret_def
        split: sum.splits prod.splits)
  from createPool_success [OF cp] rest show ?thesis
    by (auto simp: o)
qed

section \<open>The canonical order\<close>

lemma example_orderCreateSave:
  "snd (orderCreateSave example_lib example_chain example_account pudgy penguin []) =
     Inr (penguin, pudgy, Some ''0xCcCcCcCcCcCcCcCcCcCcCcCcCcCcCcCcCcCcCcCc'')"
  by code_simp

text \<open>
  C1: two token addresses are two contracts, so they differ when compared in lower case
  (an address has more than one spelling, in the case of its letters). For any two such
  addresses the ordering step gives the same pair for both orders of its arguments, with
  the smaller address (in lower case) first. For any two address strings at all the two
  results agree in lower case and the first of the result is never the greater one.
  After the two deployments, whatever their order, every \<open>createPool\<close> call and every
  initialize call passes the two token addresses in the order that the step gives, a
  bootstrap that completes has made one call of each, and in every run of \<open>main\<close> these
  calls pass a first address that is not the greater one.
\<close>

theorem C1_canonical_order:
  "toLowerCase (address (fst (orderPair a b))) = toLowerCase (address (fst (orderPair b a)))
   \<and> toLowerCase (address (snd (orderPair a b))) = toLowerCase (address (snd (orderPair b a)))
   \<and> (toLowerCase (address a) \<noteq> toLowerCase (address b) \<longrightarrow>
      orderPair a b = orderPair b a
      \<and> toLowerCase (address (fst (orderPair a b))) < toLowerCase (address (snd (orderPair a b))))
   \<and> \<not> toLowerCase (address (snd (orderPair a b))) < toLowerCase (address (fst (orderPair a b)))
   \<and> list_all (\<lambda>c. write_args c = [Addr (address (fst (orderPair a b))),
                                     Addr (address (snd (orderPair a b))), UInt 500])
        (calls_to ''createPool'' (fst (orderCreateSave L C account a b h)))
   \<and> list_all (\<lambda>c. write_args c = [Addr (address (fst (orderPair a b))),
                                     Addr (address (snd (orderPair a b))), UInt 500,
                                     UInt (2 ^ 96)])
        (calls_to ''createAndInitializePoolIfNecessary''
           (fst (orderCreateSave L C account a b h)))
   \<and> (snd (orderCreateSave L C account a b h) = Inr res \<longrightarrow>
        map write_args (calls_to ''createPool'' (fst (orderCreateSave L C account a b h))) =
          [[Addr (address (fst (orderPair a b))), Addr (address (snd (orderPair a b))),
            UInt 500]]
        \<and> map write_args (calls_to ''createAndInitializePoolIfNecessary''
                            (fst (orderCreateSave L C account a b h))) =
          [[Addr (address (fst (orderPair a b))), Addr (address (snd (orderPair a b))),
            UInt 500, UInt (2 ^ 96)]])
   \<and> list_all canonical_args (fst (run L C cfg cache))"
proof -
  let ?create = "[Addr (address (fst (orderPair a b))), Addr (address (snd (orderPair a b))),
                  UInt 500]"
  let ?init = "[Addr (address (fst (orderPair a b))), Addr (address (snd (orderPair a b))),
                UInt 500, UInt (2 ^ 96)]"
  let ?P = "\<lambda>c. (writes ''createPool'' c \<longrightarrow> write_args c = ?create)
              \<and> (writes ''createAndInitializePoolIfNecessary'' c \<longrightarrow> write_args c = ?init)"
  have "emits ?P (orderCreateSave L C account a b)"
    by (rule orderCreateSave_emits) (auto simp: trace_defs split: call.splits)
  then have "list_all ?P (fst (orderCreateSave L C account a b h))"
    by (rule emitsD)
  then have calls:
    "list_all (\<lambda>c. write_args c = ?create)
       (calls_to ''createPool'' (fst (orderCreateSave L C account a b h)))"
    "list_all (\<lambda>c. write_args c = ?init)
       (calls_to ''createAndInitializePoolIfNecessary''
          (fst (orderCreateSave L C account a b h)))"
    by (simp_all add: calls_to_def list_all_iff)
  have complete:
    "map write_args (calls_to ''createPool'' (fst (orderCreateSave L C account a b h))) =
       [?create]
     \<and> map write_args (calls_to ''createAndInitializePoolIfNecessary''
                         (fst (orderCreateSave L C account a b h))) = [?init]"
    if "snd (orderCreateSave L C account a b h) = Inr res"
  proof -
    from that have "orderCreateSave L C account a b h =
        (fst (orderCreateSave L C account a b h), Inr res)"
      by (metis prod.collapse)
    from orderCreateSave_success [OF this] show ?thesis
      by (auto simp: trace_defs)
  qed
  have "list_all canonical_args (fst (run L C cfg cache))"
    unfolding run_def by (rule emitsD [OF main_emits_canonical])
  moreover have
    "toLowerCase (address (fst (orderPair a b))) = toLowerCase (address (fst (orderPair b a)))"
    "toLowerCase (address (snd (orderPair a b))) = toLowerCase (address (snd (orderPair b a)))"
    by (auto simp: orderPair_def)
  ultimately show ?thesis
    using calls complete
      orderPair_commute [of a b] orderPair_less [of a b] orderPair_not_greater [of a b]
    by blast
qed

theorem C1_canonical_order_witness:
  "toLowerCase (address pudgy) \<noteq> toLowerCase (address penguin)
   \<and> orderPair pudgy penguin = orderPair penguin pudgy
   \<and> snd (orderCreateSave example_lib example_chain example_account pudgy penguin []) =
       Inr (penguin, pudgy, Some ''0xCcCcCcCcCcCcCcCcCcCcCcCcCcCcCcCcCcCcCcCc'')
   \<and> map write_args (calls_to ''createPool''
        (fst (orderCreateSave example_lib example_chain example_account pudgy penguin []))) =
       [[Addr (address penguin), Addr (address pudgy), UInt 500]]
   \<and> map write_args (calls_to ''createAndInitializePoolIfNecessary''
        (fst (orderCreateSave example_lib example_chain example_account pudgy penguin []))) =
       [[Addr (address penguin), Addr (address pudgy), UInt 500, UInt (2 ^ 96)]]"
proof -
  have d: "toLowerCase (address pudgy) \<noteq> toLowerCase (address penguin)"
    by (simp add: pudgy_def penguin_def toLowerCase_def lower_char_def)
  have o: "orderPair pudgy penguin = (penguin, pudgy)"
    by (simp add: orderPair_def pudgy_def penguin_def toLowerCase_def lower_char_def)
  show ?thesis
    using C1_canonical_order [where a = pudgy and b = penguin and L = example_lib
            and C = example_chain and account = example_account and h = "[]"
            and res = "(penguin, pudgy, Some ''0xCcCcCcCcCcCcCcCcCcCcCcCcCcCcCcCcCcCcCcCc'')"]
          d example_orderCreateSave
    by (simp add: o)
qed

section \<open>The amount of the swap\<close>

text \<open>
  C8: when the return data of the quoter call decodes to the \<open>uint256\<close> value \<open>V\<close>, every
  \<open>exactInputSingle\<close> call that follows has \<open>amountIn = V\<close>; and once the nonce is read,
  that call is the next one made.
\<close>

theorem C8_swap_amount:
  assumes "decodeAbiParameters L d = Inr V" and "d \<noteq> []"
  shows "list_all (\<lambda>c. struct_field ''amountIn'' (write_args c) = Some (UInt V))
           (calls_to ''exactInputSingle''
              (fst (swapFromQuote L C account tokensIn tokensOut (Some d) h)))
         \<and> (uint_result C h (GetTransactionCount account) = Inr n \<longrightarrow>
              (\<exists>cs. fst (swapFromQuote L C account tokensIn tokensOut (Some d) h) =
                      GetTransactionCount account
                      # WriteContract (SWAP_ROUTER_ADDRESS wantedContracts) ''exactInputSingle''
                          (exactInputSingle_args (sdk_address tokensIn) (sdk_address tokensOut)
                             account V) (Some n)
                      # cs)
              \<and> struct_field ''amountIn''
                   (exactInputSingle_args (sdk_address tokensIn) (sdk_address tokensOut)
                      account V) = Some (UInt V))"
  using assms
  by (auto simp: swapFromQuote_def gateway_defs await_def lift_def rpc_def ret_def
      trace_defs struct_field_def exactInputSingle_args_def split: sum.splits prod.splits)

theorem C8_swap_amount_witness:
  "decodeAbiParameters example_lib
     ''0x000000000000000000000000000000000000000000000000000000000000002a'' = Inr 42
   \<and> uint_result example_chain [] (GetTransactionCount example_account) = Inr 7
   \<and> (\<exists>cs. fst (swapFromQuote example_lib example_chain example_account
                  \<lparr>sdk_chainId = 11124, sdk_address = address penguin, sdk_decimals = 18,
                   sdk_name = ''Penguin'', sdk_symbol = ''PENGUIN''\<rparr>
                  \<lparr>sdk_chainId = 11124, sdk_address = address pudgy, sdk_decimals = 18,
                   sdk_name = ''Pudgy'', sdk_symbol = ''PUDGY''\<rparr>
                  (Some ''0x000000000000000000000000000000000000000000000000000000000000002a'')
                  []) =
            GetTransactionCount example_account
            # WriteContract (SWAP_ROUTER_ADDRESS wantedContracts) ''exactInputSingle''
                (exactInputSingle_args (address penguin) (address pudgy) example_account 42)
                (Some 7)
            # cs)"
proof -
  let ?d = "''0x000000000000000000000000000000000000000000000000000000000000002a''"
  have 1: "decodeAbiParameters example_lib ?d = Inr 42" by (simp add: example_lib_def)
  have 2: "?d \<noteq> []" by simp
  have 3: "uint_result example_chain [] (GetTransactionCount example_account) = Inr 7"
    by (simp add: example_chain_def)
  show ?thesis
    using C8_swap_amount [OF 1 2, where C = example_chain and account = example_account
            and h = "[]" and n = 7
            and tokensIn = "\<lparr>sdk_chainId = 11124, sdk_address = address penguin,
                              sdk_decimals = 18, sdk_name = ''Penguin'',
                              sdk_symbol = ''PENGUIN''\<rparr>"
            and tokensOut = "\<lparr>sdk_chainId = 11124, sdk_address = address pudgy,
                               sdk_decimals = 18, sdk_name = ''Pudgy'',
                               sdk_symbol = ''PUDGY''\<rparr>"] 1 3
    by simp
qed

section \<open>The branch of main\<close>

lemma emits_await_lift:
  "(\<And>x. r = Inr x \<Longrightarrow> emits P (f x)) \<Longrightarrow> emits P (await (lift r) f)"
  by (cases r) (simp_all add: await_lift_Inr await_lift_Inl emits_throw)

lemma fromCached_None: "fromCached c = Inr x \<Longrightarrow> (x = None) = (c = None)"
  by (auto simp: fromCached_def split: option.splits sum.splits)

lemma main_resume_emits:
  assumes "tokenOne cache \<noteq> None" and "tokenTwo cache \<noteq> None" and "\<not> create cfg"
  shows "emits (\<lambda>c. \<not> bootstrap_call c) (main L C cfg cache)"
proof -
  have inner: "emits (\<lambda>c. \<not> bootstrap_call c)
                 (await (if create cfg \<or> t1 = None \<or> t2 = None then bootstrap L C account
                         else ret (the t1, the t2, poolAddress cache))
                    (\<lambda>(t1', t2', pool_address).
                       afterBootstrap L C cfg account t1' t2' pool_address))"
    if "fromCached (tokenOne cache) = Inr t1" and "fromCached (tokenTwo cache) = Inr t2"
    for t1 t2 account
  proof -
    from that assms have "\<not> (create cfg \<or> t1 = None \<or> t2 = None)"
      by (simp add: fromCached_None)
    then show ?thesis
      by (auto simp: await_ret afterBootstrap_emits)
  qed
  show ?thesis
    unfolding main_def getBalance_def
    by (intro emits_if emits_throw emits_await_lift emits_await [OF emits_rpc] inner)
       (simp_all add: trace_defs)
qed

lemma run_after_balance:
  assumes "PRIVATE_KEY cfg = Some k" and "k \<noteq> []"
    and "privateKeyToAccount L (''0x'' @ k) = Inr account"
    and "fromCached (tokenOne cache) = Inr t1" and "fromCached (tokenTwo cache) = Inr t2"
    and "uint_result C [] (GetBalance account) = Inr b" and "b \<noteq> 0"
  shows "run L C cfg cache =
           (GetBalance account
              # fst (await (if create cfg \<or> t1 = None \<or> t2 = None then bootstrap L C account
                            else ret (the t1, the t2, poolAddress cache))
                      (\<lambda>(t1', t2', pool_address).
                         afterBootstrap L C cfg account t1' t2' pool_address)
                      [GetBalance account]),
            snd (await (if create cfg \<or> t1 = None \<or> t2 = None then bootstrap L C account
                        else ret (the t1, the t2, poolAddress cache))
                  (\<lambda>(t1', t2', pool_address).
                     afterBootstrap L C cfg account t1' t2' pool_address)
                  [GetBalance account]))"
  using assms
  by (simp add: run_def main_def await_lift_Inr getBalance_def await_rpc)

lemma first_call_await:
  "\<exists>cs. fst (m h) = c # cs \<Longrightarrow> \<exists>cs. fst (await m f h) = c # cs"
  by (auto simp: fst_await split: sum.splits)

lemma first_call_rpc: "\<exists>cs. fst (rpc answer c h) = c # cs"
  by (simp add: rpc_def)

lemma bootstrap_first:
  "\<exists>cs. fst (await (bootstrap L C account) f h) =
          DeployContract account [Str ''Pudgy'', Str ''PUDGY'', UInt (10 ^ 21)] # cs"
proof (rule first_call_await)
  have "bootstrap L C account =
        await (deployToken C account ''Pudgy'' ''PUDGY'' (10 ^ 21)) (\<lambda>d1.
        await (lift token_two_supply) (\<lambda>supply2.
        await (deployToken C account token_two_name token_two_symbol supply2) (\<lambda>d2.
        orderCreateSave L C account d1 d2)))"
    by (simp add: bootstrap_def token_one_supply_def parseEther_1000 await_lift_Inr
        token_one_name_def token_one_symbol_def)
  moreover have "\<exists>cs. fst (deployToken C account ''Pudgy'' ''PUDGY'' (10 ^ 21) h) =
          DeployContract account [Str ''Pudgy'', Str ''PUDGY'', UInt (10 ^ 21)] # cs"
    unfolding deployToken_def deployContract_def
    by (rule first_call_await) (rule first_call_rpc)
  ultimately show "\<exists>cs. fst (bootstrap L C account h) =
          DeployContract account [Str ''Pudgy'', Str ''PUDGY'', UInt (10 ^ 21)] # cs"
    by (simp add: first_call_await)
qed

lemma afterBootstrap_first:
  "\<exists>cs. fst (afterBootstrap L C cfg account t1 t2 pa h) =
          ReadContract (Some (address t1)) ''allowance''
            [Addr account, Addr (NONFUNGIBLE_TOKEN_POSITION_MANAGER_ADDRESS wantedContracts)]
          # cs"
  by (simp add: afterBootstrap_def allowanceStep_def readContract_def await_assoc await_rpc
      split: sum.splits)

lemma addLiquidity_reads:
  "\<exists>cs. fst (addLiquidity L C cfg account t1 t2 pa h) =
          ReadContract pa ''tickSpacing'' [] # ReadContract pa ''fee'' []
          # ReadContract pa ''liquidity'' [] # ReadContract pa ''slot0'' [] # cs"
  by (simp add: addLiquidity_def readContract_def readContract_slot0_def await_started_rpc
      split: prod.splits)

lemma example_prelude:
  "privateKeyToAccount example_lib (''0x'' @ the (PRIVATE_KEY example_config)) = Inr example_account"
  "fromCached (Some (toCached penguin)) = Inr (Some (penguin\<lparr>tokenSupply := 10 ^ 39\<rparr>))"
  "fromCached (Some (toCached pudgy)) = Inr (Some (pudgy\<lparr>tokenSupply := 10 ^ 39\<rparr>))"
  "uint_result example_chain [] (GetBalance example_account) = Inr (10 ^ 18)"
  "\<not> create example_config"
  by (simp_all add: example_lib_def example_account_def example_chain_def create_def
      example_config_def fromCached_def toCached_def parseEther_String_bigint
      penguin_def pudgy_def)

text \<open>
  C2: when the cache holds both token records and \<open>--create\<close> is not on the command line,
  no call of the run is a token deployment, a \<open>createPool\<close> or an initialize call, nor a
  write of the cache file; and when the run gets past the balance check, its next call is
  the first allowance read.
\<close>

theorem C2_resume_without_bootstrap:
  assumes "tokenOne cache \<noteq> None" and "tokenTwo cache \<noteq> None" and "\<not> create cfg"
  shows "list_all (\<lambda>c. \<not> bootstrap_call c) (fst (run L C cfg cache))
         \<and> (PRIVATE_KEY cfg = Some k \<and> k \<noteq> []
              \<and> privateKeyToAccount L (''0x'' @ k) = Inr account
              \<and> fromCached (tokenOne cache) = Inr (Some t1)
              \<and> fromCached (tokenTwo cache) = Inr (Some t2)
              \<and> uint_result C [] (GetBalance account) = Inr b \<and> b \<noteq> 0 \<longrightarrow>
            take 2 (fst (run L C cfg cache)) =
              [GetBalance account,
               ReadContract (Some (address t1)) ''allowance''
                 [Addr account,
                  Addr (NONFUNGIBLE_TOKEN_POSITION_MANAGER_ADDRESS wantedContracts)]])"
proof (intro conjI impI)
  show "list_all (\<lambda>c. \<not> bootstrap_call c) (fst (run L C cfg cache))"
    unfolding run_def by (rule emitsD [OF main_resume_emits [OF assms]])
next
  assume p: "PRIVATE_KEY cfg = Some k \<and> k \<noteq> []
              \<and> privateKeyToAccount L (''0x'' @ k) = Inr account
              \<and> fromCached (tokenOne cache) = Inr (Some t1)
              \<and> fromCached (tokenTwo cache) = Inr (Some t2)
              \<and> uint_result C [] (GetBalance account) = Inr b \<and> b \<noteq> 0"
  then have "run L C cfg cache =
      (GetBalance account
         # fst (afterBootstrap L C cfg account t1 t2 (poolAddress cache) [GetBalance account]),
       snd (afterBootstrap L C cfg account t1 t2 (poolAddress cache) [GetBalance account]))"
    using assms(3)
      run_after_balance [of cfg k L account cache "Some t1" "Some t2" C b]
    by (auto simp: await_ret)
  moreover obtain cs where
    "fst (afterBootstrap L C cfg account t1 t2 (poolAddress cache) [GetBalance account]) =
       ReadContract (Some (address t1)) ''allowance''
         [Addr account, Addr (NONFUNGIBLE_TOKEN_POSITION_MANAGER_ADDRESS wantedContracts)] # cs"
    using afterBootstrap_first by blast
  ultimately show "take 2 (fst (run L C cfg cache)) =
      [GetBalance account,
       ReadContract (Some (address t1)) ''allowance''
         [Addr account, Addr (NONFUNGIBLE_TOKEN_POSITION_MANAGER_ADDRESS wantedContracts)]]"
    by simp
qed

theorem C2_resume_without_bootstrap_witness:
  "tokenOne populated_cache \<noteq> None \<and> tokenTwo populated_cache \<noteq> None
   \<and> \<not> create example_config
   \<and> list_all (\<lambda>c. \<not> bootstrap_call c)
        (fst (run example_lib example_chain example_config populated_cache))
   \<and> take 2 (fst (run example_lib example_chain example_config populated_cache)) =
       [GetBalance example_account,
        ReadContract (Some (address penguin)) ''allowance''
          [Addr example_account,
           Addr (NONFUNGIBLE_TOKEN_POSITION_MANAGER_ADDRESS wantedContracts)]]"
proof -
  have c: "tokenOne populated_cache \<noteq> None" "tokenTwo populated_cache \<noteq> None"
    by (simp_all add: populated_cache_def)
  have p: "PRIVATE_KEY example_config =
             Some ''ac0974bec39a17e36ba4a6b4d238ff944bacb478cbed5efcae784d7bf4f2ff80''
           \<and> ''ac0974bec39a17e36ba4a6b4d238ff944bacb478cbed5efcae784d7bf4f2ff80'' \<noteq> []
           \<and> privateKeyToAccount example_lib
               (''0x'' @ ''ac0974bec39a17e36ba4a6b4d238ff944bacb478cbed5efcae784d7bf4f2ff80'')
               = Inr example_account
           \<and> fromCached (tokenOne populated_cache) = Inr (Some (penguin\<lparr>tokenSupply := 10 ^ 39\<rparr>))
           \<and> fromCached (tokenTwo populated_cache) = Inr (Some (pudgy\<lparr>tokenSupply := 10 ^ 39\<rparr>))
           \<and> uint_result example_chain [] (GetBalance example_account) = Inr (10 ^ 18)
           \<and> (10::int) ^ 18 \<noteq> 0"
    using example_prelude by (simp add: populated_cache_def example_config_def)
  show ?thesis
    using C2_resume_without_bootstrap [where L = example_lib
            and C = example_chain
            and k = "''ac0974bec39a17e36ba4a6b4d238ff944bacb478cbed5efcae784d7bf4f2ff80''"
            and account = example_account and ?t1.0 = "penguin\<lparr>tokenSupply := 10 ^ 39\<rparr>"
            and ?t2.0 = "pudgy\<lparr>tokenSupply := 10 ^ 39\<rparr>" and b = "10 ^ 18",
            OF c example_prelude(5)]
          c example_prelude(5) p
    by simp
qed

text \<open>
  C10: once a run is past the balance check, it deploys a token exactly when \<open>--create\<close>
  is given or one of the two token records is missing from the cache. The cached pool
  address plays no part: with both records and no flag the run goes on with whatever
  \<open>poolAddress\<close> the cache has, also none, and when the allowances are done the pool is
  read at that address.
\<close>

theorem C10_bootstrap_condition:
  assumes "PRIVATE_KEY cfg = Some k" and "k \<noteq> []"
    and "privateKeyToAccount L (''0x'' @ k) = Inr account"
    and "fromCached (tokenOne cache) = Inr t1" and "fromCached (tokenTwo cache) = Inr t2"
    and "uint_result C [] (GetBalance account) = Inr b" and "b \<noteq> 0"
  shows "(list_ex is_deploy (fst (run L C cfg cache)) \<longleftrightarrow>
            create cfg \<or> tokenOne cache = None \<or> tokenTwo cache = None)
         \<and> (\<not> create cfg \<and> tokenOne cache \<noteq> None \<and> tokenTwo cache \<noteq> None
              \<and> snd (giveAllowances C account [the t1, the t2]
                       [NONFUNGIBLE_TOKEN_POSITION_MANAGER_ADDRESS wantedContracts,
                        SWAP_ROUTER_ADDRESS wantedContracts] [GetBalance account]) = Inr () \<longrightarrow>
            (\<exists>cs. fst (run L C cfg cache) =
                    GetBalance account
                    # fst (giveAllowances C account [the t1, the t2]
                             [NONFUNGIBLE_TOKEN_POSITION_MANAGER_ADDRESS wantedContracts,
                              SWAP_ROUTER_ADDRESS wantedContracts] [GetBalance account])
                    @ ReadContract (poolAddress cache) ''tickSpacing'' []
                    # ReadContract (poolAddress cache) ''fee'' []
                    # ReadContract (poolAddress cache) ''liquidity'' []
                    # ReadContract (poolAddress cache) ''slot0'' []
                    # cs))"
proof (intro conjI impI)
  note r = run_after_balance [OF assms]
  show "list_ex is_deploy (fst (run L C cfg cache)) \<longleftrightarrow>
          create cfg \<or> tokenOne cache = None \<or> tokenTwo cache = None"
  proof (cases "create cfg \<or> tokenOne cache = None \<or> tokenTwo cache = None")
    case True
    then have "create cfg \<or> t1 = None \<or> t2 = None"
      using assms(4,5) by (auto simp: fromCached_None)
    then obtain cs where "fst (run L C cfg cache) =
        GetBalance account
        # DeployContract account [Str ''Pudgy'', Str ''PUDGY'', UInt (10 ^ 21)] # cs"
      using r bootstrap_first [of L C account _ "[GetBalance account]"] by auto
    then show ?thesis using True by (simp add: is_deploy_def)
  next
    case False
    then have "list_all (\<lambda>c. \<not> bootstrap_call c) (fst (run L C cfg cache))"
      unfolding run_def by (intro emitsD [OF main_resume_emits]) simp_all
    then have "\<not> list_ex is_deploy (fst (run L C cfg cache))"
      by (auto simp: list_all_iff list_ex_iff bootstrap_call_def)
    with False show ?thesis by simp
  qed
next
  let ?spenders = "[NONFUNGIBLE_TOKEN_POSITION_MANAGER_ADDRESS wantedContracts,
                    SWAP_ROUTER_ADDRESS wantedContracts]"
  let ?g = "giveAllowances C account [the t1, the t2] ?spenders [GetBalance account]"
  assume a: "\<not> create cfg \<and> tokenOne cache \<noteq> None \<and> tokenTwo cache \<noteq> None
              \<and> snd ?g = Inr ()"
  then have "\<not> (create cfg \<or> t1 = None \<or> t2 = None)"
    using assms(4,5) by (auto simp: fromCached_None)
  then have r: "fst (run L C cfg cache) =
      GetBalance account
      # fst (afterBootstrap L C cfg account (the t1) (the t2) (poolAddress cache)
               [GetBalance account])"
    using run_after_balance [OF assms] by (auto simp: await_ret)
  obtain cs where "fst (addLiquidity L C cfg account (the t1) (the t2) (poolAddress cache)
                          ([GetBalance account] @ fst ?g)) =
      ReadContract (poolAddress cache) ''tickSpacing'' []
      # ReadContract (poolAddress cache) ''fee'' []
      # ReadContract (poolAddress cache) ''liquidity'' []
      # ReadContract (poolAddress cache) ''slot0'' [] # cs"
    using addLiquidity_reads by blast
  then have "fst (run L C cfg cache) =
      GetBalance account # fst ?g
      @ ReadContract (poolAddress cache) ''tickSpacing'' []
      # ReadContract (poolAddress cache) ''fee'' []
      # ReadContract (poolAddress cache) ''liquidity'' []
      # ReadContract (poolAddress cache) ''slot0'' [] # cs"
    using a r by (simp add: afterBootstrap_def fst_await)
  then show "\<exists>cs. fst (run L C cfg cache) =
      GetBalance account # fst ?g
      @ ReadContract (poolAddress cache) ''tickSpacing'' []
      # ReadContract (poolAddress cache) ''fee'' []
      # ReadContract (poolAddress cache) ''liquidity'' []
      # ReadContract (poolAddress cache) ''slot0'' [] # cs"
    by blast
qed

lemma example_allowances:
  "snd (giveAllowances example_chain example_account
          [penguin\<lparr>tokenSupply := 10 ^ 39\<rparr>, pudgy\<lparr>tokenSupply := 10 ^ 39\<rparr>]
          [NONFUNGIBLE_TOKEN_POSITION_MANAGER_ADDRESS wantedContracts,
           SWAP_ROUTER_ADDRESS wantedContracts] [GetBalance example_account]) = Inr ()"
  by code_simp

theorem C10_bootstrap_condition_witness:
  "\<not> create example_config \<and> tokenOne cache_without_pool \<noteq> None
   \<and> tokenTwo cache_without_pool \<noteq> None \<and> poolAddress cache_without_pool = None
   \<and> \<not> list_ex is_deploy (fst (run example_lib example_chain example_config cache_without_pool))
   \<and> (\<exists>cs. fst (run example_lib example_chain example_config cache_without_pool) =
             GetBalance example_account
             # fst (giveAllowances example_chain example_account
                      [penguin\<lparr>tokenSupply := 10 ^ 39\<rparr>, pudgy\<lparr>tokenSupply := 10 ^ 39\<rparr>]
                      [NONFUNGIBLE_TOKEN_POSITION_MANAGER_ADDRESS wantedContracts,
                       SWAP_ROUTER_ADDRESS wantedContracts] [GetBalance example_account])
             @ ReadContract None ''tickSpacing'' [] # ReadContract None ''fee'' []
             # ReadContract None ''liquidity'' [] # ReadContract None ''slot0'' [] # cs)"
proof -
  let ?k = "''ac0974bec39a17e36ba4a6b4d238ff944bacb478cbed5efcae784d7bf4f2ff80''"
  have k: "PRIVATE_KEY example_config = Some ?k" "?k \<noteq> []"
    by (simp_all add: example_config_def)
  have a: "privateKeyToAccount example_lib (''0x'' @ ?k) = Inr example_account"
    by (simp add: example_lib_def example_account_def)
  have t: "fromCached (tokenOne cache_without_pool) = Inr (Some (penguin\<lparr>tokenSupply := 10 ^ 39\<rparr>))"
    "fromCached (tokenTwo cache_without_pool) = Inr (Some (pudgy\<lparr>tokenSupply := 10 ^ 39\<rparr>))"
    using example_prelude by (simp_all add: cache_without_pool_def)
  have b: "uint_result example_chain [] (GetBalance example_account) = Inr (10 ^ 18)"
    "(10::int) ^ 18 \<noteq> 0"
    using example_prelude by simp_all
  have c: "tokenOne cache_without_pool \<noteq> None" "tokenTwo cache_without_pool \<noteq> None"
    "poolAddress cache_without_pool = None"
    by (simp_all add: cache_without_pool_def)
  show ?thesis
    using C10_bootstrap_condition [OF k a t b] c example_prelude(5) example_allowances
    by simp
qed

section \<open>The cache round trip\<close>

lemma emits_await_result:
  "emits P m \<Longrightarrow> (\<And>x h cs. m h = (cs, Inr x) \<Longrightarrow> emits P (f x)) \<Longrightarrow> emits P (await m f)"
proof -
  assume m: "emits P m" and f: "\<And>x h cs. m h = (cs, Inr x) \<Longrightarrow> emits P (f x)"
  have "list_all P (fst (await m f h))" for h
  proof (cases "snd (m h)")
    case (Inl e)
    then show ?thesis using m by (simp add: fst_await emits_def)
  next
    case (Inr x)
    then have "m h = (fst (m h), Inr x)" by (metis prod.collapse)
    then have "emits P (f x)" by (rule f)
    then show ?thesis using m Inr by (simp add: fst_await emits_def)
  qed
  then show ?thesis by (simp add: emits_def)
qed

lemma deployToken_supply:
  "deployToken C account name symbol supply h = (cs, Inr t) \<Longrightarrow> tokenSupply t = supply"
  by (auto simp: deployToken_def gateway_defs await_def rpc_def ret_def throw_def
      split: sum.splits prod.splits option.splits if_splits)

lemma deployToken_no_save: "emits saves_minted_supply (deployToken C account name symbol supply)"
  unfolding deployToken_def gateway_defs
  by (intro emits_intros emits_rpc) (simp_all add: saves_minted_supply_def)

lemma createPool_no_save: "emits saves_minted_supply (createPool L C account t1 t2 contracts)"
  unfolding createPool_def gateway_defs
  by (intro emits_intros emits_rpc) (simp_all add: saves_minted_supply_def)

lemma orderCreateSave_saves:
  assumes "tokenSupply d1 = 10 ^ 21" and "tokenSupply d2 = 10 ^ 21"
  shows "emits saves_minted_supply (orderCreateSave L C account d1 d2)"
proof -
  obtain t1 t2 where o: "orderPair d1 d2 = (t1, t2)" by (cases "orderPair d1 d2")
  with assms have "tokenSupply t1 = 10 ^ 21" "tokenSupply t2 = 10 ^ 21"
    by (auto simp: orderPair_def split: if_splits)
  then show ?thesis
    unfolding orderCreateSave_def o saveCache_def
    by (auto intro!: emits_intros emits_rpc createPool_no_save
        simp: saves_minted_supply_def toCached_def)
qed

lemma bootstrap_saves: "emits saves_minted_supply (bootstrap L C account)"
proof -
  have "bootstrap L C account =
        await (deployToken C account token_one_name token_one_symbol (10 ^ 21)) (\<lambda>d1.
        await (deployToken C account token_two_name token_two_symbol (10 ^ 21)) (\<lambda>d2.
        orderCreateSave L C account d1 d2))"
    by (simp add: bootstrap_def token_one_supply_def token_two_supply_def parseEther_1000
        await_lift_Inr)
  then show ?thesis
    by (auto intro!: emits_await_result deployToken_no_save orderCreateSave_saves
        dest: deployToken_supply)
qed

lemma not_bootstrap_saves: "\<not> bootstrap_call c \<Longrightarrow> saves_minted_supply c"
  by (cases c) (simp_all add: saves_minted_supply_def bootstrap_call_def is_save_def)

lemma main_saves: "emits saves_minted_supply (main L C cfg cache)"
  unfolding main_def getBalance_def
  by (intro emits_intros emits_rpc bootstrap_saves
        emits_mono [OF afterBootstrap_emits not_bootstrap_saves])
     (simp_all add: saves_minted_supply_def)

lemma example_bootstrap_saves:
  "list_ex is_save (fst (run example_lib example_chain example_config empty_cache))"
  by code_simp

text \<open>
  C4: a token record is written to the cache with its supply as the decimal string of
  the raw amount; read back, the string goes through \<open>parseEther\<close>. So the record that
  \<open>main\<close> holds after a save and a load has the supply multiplied by \<open>10^18\<close>, which is
  not the saved supply unless that is zero. Every cache file that a run writes holds, for
  both tokens, the minted supply \<open>10^21\<close>, which is not zero.
\<close>

theorem C4_cache_round_trip:
  "cached_tokenSupply (toCached t) = String_bigint (tokenSupply t)
   \<and> fromCached (Some (toCached t)) = Inr (Some (t\<lparr>tokenSupply := tokenSupply t * 10 ^ 18\<rparr>))
   \<and> (tokenSupply t \<noteq> 0 \<longrightarrow> fromCached (Some (toCached t)) \<noteq> Inr (Some t))
   \<and> list_all saves_minted_supply (fst (run L C cfg cache))"
proof -
  have load: "fromCached (Some (toCached t)) =
              Inr (Some (t\<lparr>tokenSupply := tokenSupply t * 10 ^ 18\<rparr>))"
    by (simp add: fromCached_def toCached_def parseEther_String_bigint)
  have "t\<lparr>tokenSupply := tokenSupply t * 10 ^ 18\<rparr> \<noteq> t" if "tokenSupply t \<noteq> 0"
  proof
    assume "t\<lparr>tokenSupply := tokenSupply t * 10 ^ 18\<rparr> = t"
    then have "tokenSupply (t\<lparr>tokenSupply := tokenSupply t * 10 ^ 18\<rparr>) = tokenSupply t"
      by simp
    then have "tokenSupply t * 10 ^ 18 = tokenSupply t" by simp
    with that show False by simp
  qed
  moreover have "list_all saves_minted_supply (fst (run L C cfg cache))"
    unfolding run_def by (rule emitsD [OF main_saves])
  ultimately show ?thesis
    using load by (simp add: toCached_def)
qed

theorem C4_cache_round_trip_witness:
  "tokenSupply pudgy \<noteq> 0
   \<and> cached_tokenSupply (toCached pudgy) = ''1000000000000000000000''
   \<and> fromCached (Some (toCached pudgy)) = Inr (Some (pudgy\<lparr>tokenSupply := 10 ^ 39\<rparr>))
   \<and> fromCached (Some (toCached pudgy)) \<noteq> Inr (Some pudgy)
   \<and> list_all saves_minted_supply
         (fst (run example_lib example_chain example_config empty_cache))
   \<and> list_ex is_save (fst (run example_lib example_chain example_config empty_cache))"
proof -
  have nz: "tokenSupply pudgy \<noteq> 0" by (simp add: pudgy_def)
  have lit: "String_bigint (10 ^ 21) = ''1000000000000000000000''" by code_simp
  have s: "tokenSupply pudgy = 10 ^ 21" by (simp add: pudgy_def)
  note c4 = C4_cache_round_trip
              [where t = pudgy and L = example_lib and C = example_chain
                 and cfg = example_config and cache = empty_cache]
  have "cached_tokenSupply (toCached pudgy) = ''1000000000000000000000''"
    using c4 lit by (simp add: s)
  moreover have "fromCached (Some (toCached pudgy)) = Inr (Some (pudgy\<lparr>tokenSupply := 10 ^ 39\<rparr>))"
    using c4 by (simp add: s)
  moreover have "fromCached (Some (toCached pudgy)) \<noteq> Inr (Some pudgy)"
    using c4 nz by blast
  moreover have "list_all saves_minted_supply
                   (fst (run example_lib example_chain example_config empty_cache))"
    using c4 by blast
  ultimately show ?thesis using nz example_bootstrap_saves by blast
qed

end
